theory Spec2Isabelle
  imports Complex_Main "HOL-Library.AList"
begin

section \<open>JavaScript values, dates and containers\<close>

text \<open>
  A timestamp is the number of milliseconds since the epoch. The source keeps timestamps as
  ISO-8601 strings written by \<^verbatim>\<open>toISOString\<close> and reads them back with
  \<^verbatim>\<open>new Date(string)\<close>, which returns the same instant; the model keeps the instant.
  The clock (\<^verbatim>\<open>new Date()\<close>) is a parameter \<open>now\<close> of every operation that reads it, read
  as one instant per operation; it is the time value of a valid date.
\<close>

type_synonym time = int

text \<open>
  A JavaScript number: a finite double, kept as the real it denotes, the infinities, NaN.
\<close>

datatype number = Finite real | PosInfinity | NegInfinity | NaN

text \<open>
  A value produced by \<^verbatim>\<open>JSON.parse\<close> or handed to \<^verbatim>\<open>JSON.stringify\<close>. An object is the
  list of its own properties in creation order. \<open>JIso t\<close> is the string \<^verbatim>\<open>toISOString\<close> gives
  for the instant \<open>t\<close>.
\<close>

datatype json =
    JNull
  | JBool bool
  | JNumber number
  | JString string
  | JIso time
  | JArray "json list"
  | JObject "(string \<times> json) list"

datatype error = RangeError

text \<open>
  \<^verbatim>\<open>new Date(value)\<close> on a number: the time value is clipped (an instant further than
  8.64e15 ms from the epoch is an Invalid Date, here \<open>None\<close>) and truncated towards zero.
\<close>

definition new_Date :: "real \<Rightarrow> time option" where
  "new_Date tv =
     (if \<bar>tv\<bar> \<le> 8640000000000000
      then Some (if 0 \<le> tv then \<lfloor>tv\<rfloor> else \<lceil>tv\<rceil>)
      else None)"

text \<open>\<^verbatim>\<open>toISOString\<close> throws a RangeError on an Invalid Date.\<close>

definition toISOString :: "time option \<Rightarrow> error + time" where
  "toISOString d = (case d of None \<Rightarrow> Inl RangeError | Some t \<Rightarrow> Inr t)"

text \<open>
  Arithmetic on numbers is IEEE 754 double precision. A finite double is kept as the real it
  denotes. \<open>fl x\<close> is the double nearest to the real \<open>x\<close>, ties to the even significand: the
  significand has 53 bits, so the spacing of the doubles around \<open>x\<close> is \<open>2\<^sup>e\<^sup>-\<^sup>5\<^sup>2\<close> for the binary
  exponent \<open>e\<close> of \<open>x\<close>, and \<open>2\<^sup>-\<^sup>1\<^sup>0\<^sup>7\<^sup>4\<close> below the normal range; a result of magnitude \<open>2\<^sup>1\<^sup>0\<^sup>2\<^sup>4\<close> or
  more is an infinity. \<^verbatim>\<open>a * b\<close> and \<^verbatim>\<open>a + b\<close> round the exact product and sum.
\<close>

definition pow2 :: "int \<Rightarrow> real" where
  "pow2 e = (if 0 \<le> e then 2 ^ nat e else 1 / 2 ^ nat (- e))"

definition rne :: "real \<Rightarrow> int" where
  "rne q =
     (let f = \<lfloor>q\<rfloor>; d = q - of_int f
      in if d < 1 / 2 then f else if 1 / 2 < d then f + 1 else if even f then f else f + 1)"

definition ulp :: "real \<Rightarrow> real" where
  "ulp x = pow2 (max \<lfloor>log 2 \<bar>x\<bar>\<rfloor> (- 1022) - 52)"

definition fl :: "real \<Rightarrow> number" where
  "fl x =
     (if x = 0 then Finite 0
      else let r = of_int (rne (x / ulp x)) * ulp x
           in if 2 ^ 1024 \<le> \<bar>r\<bar> then (if 0 < x then PosInfinity else NegInfinity)
              else Finite r)"

fun js_mul :: "number \<Rightarrow> number \<Rightarrow> number" where
  "js_mul (Finite x) (Finite y) = fl (x * y)"
| "js_mul NaN b = NaN"
| "js_mul a NaN = NaN"
| "js_mul (Finite x) PosInfinity =
     (if x = 0 then NaN else if 0 < x then PosInfinity else NegInfinity)"
| "js_mul (Finite x) NegInfinity =
     (if x = 0 then NaN else if 0 < x then NegInfinity else PosInfinity)"
| "js_mul PosInfinity (Finite y) =
     (if y = 0 then NaN else if 0 < y then PosInfinity else NegInfinity)"
| "js_mul NegInfinity (Finite y) =
     (if y = 0 then NaN else if 0 < y then NegInfinity else PosInfinity)"
| "js_mul PosInfinity PosInfinity = PosInfinity"
| "js_mul PosInfinity NegInfinity = NegInfinity"
| "js_mul NegInfinity PosInfinity = NegInfinity"
| "js_mul NegInfinity NegInfinity = PosInfinity"

fun js_add :: "number \<Rightarrow> number \<Rightarrow> number" where
  "js_add (Finite x) (Finite y) = fl (x + y)"
| "js_add NaN b = NaN"
| "js_add a NaN = NaN"
| "js_add PosInfinity NegInfinity = NaN"
| "js_add NegInfinity PosInfinity = NaN"
| "js_add PosInfinity b = PosInfinity"
| "js_add NegInfinity b = NegInfinity"
| "js_add (Finite x) PosInfinity = PosInfinity"
| "js_add (Finite x) NegInfinity = NegInfinity"

text \<open>\<^verbatim>\<open>new Date(value)\<close> on a number that may be infinite or NaN.\<close>

definition new_Date_number :: "number \<Rightarrow> time option" where
  "new_Date_number v = (case v of Finite tv \<Rightarrow> new_Date tv | _ \<Rightarrow> None)"

text \<open>
  A JavaScript \<^verbatim>\<open>Map\<close> is the list of its entries in insertion order: \<^verbatim>\<open>set\<close> on a key
  already present replaces the value in place, on a new key it appends; \<^verbatim>\<open>delete\<close> removes
  the entry. A \<^verbatim>\<open>Set\<close> is the list of its elements in insertion order.
\<close>

definition Map_get :: "('k \<times> 'v) list \<Rightarrow> 'k \<Rightarrow> 'v option" where
  "Map_get m k = map_of m k"

definition Map_has :: "('k \<times> 'v) list \<Rightarrow> 'k \<Rightarrow> bool" where
  "Map_has m k = (Map_get m k \<noteq> None)"

definition Map_set :: "'k \<Rightarrow> 'v \<Rightarrow> ('k \<times> 'v) list \<Rightarrow> ('k \<times> 'v) list" where
  "Map_set k v m = AList.update k v m"

definition Map_delete :: "'k \<Rightarrow> ('k \<times> 'v) list \<Rightarrow> ('k \<times> 'v) list" where
  "Map_delete k m = AList.delete k m"

definition Map_values :: "('k \<times> 'v) list \<Rightarrow> 'v list" where
  "Map_values m = map snd m"

definition Set_add :: "'a \<Rightarrow> 'a list \<Rightarrow> 'a list" where
  "Set_add x xs = (if x \<in> set xs then xs else xs @ [x])"

definition Set_delete :: "'a \<Rightarrow> 'a list \<Rightarrow> 'a list" where
  "Set_delete x xs = removeAll x xs"

text \<open>Truthiness of an optional string (\<^verbatim>\<open>undefined\<close>, \<^verbatim>\<open>null\<close> and \<^verbatim>\<open>""\<close> are falsy).\<close>

definition truthy :: "string option \<Rightarrow> string option" where
  "truthy v = (case v of None \<Rightarrow> None | Some s \<Rightarrow> if s = [] then None else Some s)"

section \<open>shared/schema.ts: the record types\<close>

record Location =
  l_id :: string
  l_latitude :: number
  l_longitude :: number
  l_name :: "string option"
  l_createdAt :: time
  l_expiresAt :: "time option"
  l_isLive :: "bool option"
  l_lastUpdated :: "time option"

text \<open>
  \<open>InsertLocation\<close> is what \<^verbatim>\<open>insertLocationSchema\<close> lets through: \<^verbatim>\<open>expiresInMinutes\<close>
  is a finite double (\<^verbatim>\<open>z.number().min(1).max(1440).optional()\<close>), whole or fractional.
\<close>

record InsertLocation =
  i_latitude :: number
  i_longitude :: number
  i_name :: "string option"
  i_isLive :: "bool option"
  i_expiresInMinutes :: "real option"

record LocationUpdate =
  lu_latitude :: number
  lu_longitude :: number

record Vehicle =
  v_id :: string
  v_fleetId :: string
  v_name :: string
  v_color :: string
  v_shareCode :: string
  v_latitude :: "number option"
  v_longitude :: "number option"
  v_isLive :: bool
  v_lastUpdated :: "time option"

record Fleet =
  f_id :: string
  f_name :: string
  f_createdAt :: time
  f_expiresAt :: time
  f_adminCode :: string

record InsertFleet =
  if_name :: string

record InsertVehicle =
  iv_fleetId :: string
  iv_name :: string
  iv_color :: "string option"

record VehicleUpdate =
  vu_latitude :: number
  vu_longitude :: number

section \<open>server/storage.ts: MemStorage\<close>

definition VEHICLE_COLORS :: "string list" where
  "VEHICLE_COLORS =
     [''#ef4444'', ''#3b82f6'', ''#22c55e'', ''#f59e0b'',
      ''#8b5cf6'', ''#ec4899'', ''#06b6d4'', ''#f97316'']"

record store =
  locations :: "(string \<times> Location) list"
  fleets :: "(string \<times> Fleet) list"
  vehicles :: "(string \<times> Vehicle) list"

definition MemStorage :: store where
  "MemStorage = \<lparr>locations = [], fleets = [], vehicles = []\<rparr>"

text \<open>
  Every operation takes the store and returns its result with the store it leaves. The
  identifiers \<^verbatim>\<open>nanoid\<close> draws are parameters.
\<close>

definition getLocation :: "time \<Rightarrow> string \<Rightarrow> store \<Rightarrow> Location option \<times> store" where
  "getLocation now ident st =
     (case Map_get (locations st) ident of
        None \<Rightarrow> (None, st)
      | Some location \<Rightarrow>
          (case l_expiresAt location of
             Some expiresAt \<Rightarrow>
               if expiresAt < now
               then (None, st\<lparr>locations := Map_delete ident (locations st)\<rparr>)
               else (Some location, st)
           | None \<Rightarrow> (Some location, st)))"

definition createLocation ::
    "string \<Rightarrow> time \<Rightarrow> InsertLocation \<Rightarrow> store \<Rightarrow> error + (Location \<times> store)" where
  "createLocation ident now insertLocation st =
     (let expiryMinutes =
            (case i_expiresInMinutes insertLocation of
               None \<Rightarrow> 1440
             | Some m \<Rightarrow> if m = 0 then 1440 else m);
          expiresAt =
            new_Date_number
              (js_add (Finite (real_of_int now))
                 (js_mul (js_mul (Finite expiryMinutes) (Finite 60)) (Finite 1000)))
      in case toISOString expiresAt of
           Inl e \<Rightarrow> Inl e
         | Inr expiresAtIso \<Rightarrow>
             (let location =
                    \<lparr>l_id = ident,
                     l_latitude = i_latitude insertLocation,
                     l_longitude = i_longitude insertLocation,
                     l_name = i_name insertLocation,
                     l_createdAt = now,
                     l_expiresAt = Some expiresAtIso,
                     l_isLive = Some (case i_isLive insertLocation of
                                        None \<Rightarrow> False | Some b \<Rightarrow> b),
                     l_lastUpdated = Some now\<rparr>
              in Inr (location, st\<lparr>locations := Map_set ident location (locations st)\<rparr>)))"

definition updateLocation ::
    "time \<Rightarrow> string \<Rightarrow> LocationUpdate \<Rightarrow> store \<Rightarrow> Location option \<times> store" where
  "updateLocation now ident update st =
     (case getLocation now ident st of
        (None, st1) \<Rightarrow> (None, st1)
      | (Some location, st1) \<Rightarrow>
          (let updatedLocation =
                 location\<lparr>l_latitude := lu_latitude update,
                          l_longitude := lu_longitude update,
                          l_lastUpdated := Some now\<rparr>
           in (Some updatedLocation,
               st1\<lparr>locations := Map_set ident updatedLocation (locations st1)\<rparr>)))"

definition deleteLocation :: "string \<Rightarrow> store \<Rightarrow> bool \<times> store" where
  "deleteLocation ident st =
     (Map_has (locations st) ident, st\<lparr>locations := Map_delete ident (locations st)\<rparr>)"

text \<open>
  The loop of \<^verbatim>\<open>getFleet\<close> over a snapshot of the vehicle entries, deleting from the
  live map every vehicle of the fleet.
\<close>

fun delete_fleet_vehicles ::
    "string \<Rightarrow> (string \<times> Vehicle) list \<Rightarrow> (string \<times> Vehicle) list \<Rightarrow> (string \<times> Vehicle) list" where
  "delete_fleet_vehicles ident [] m = m"
| "delete_fleet_vehicles ident ((vehicleId, vehicle) # vehicleEntries) m =
     delete_fleet_vehicles ident vehicleEntries
       (if v_fleetId vehicle = ident then Map_delete vehicleId m else m)"

definition getFleet :: "time \<Rightarrow> string \<Rightarrow> store \<Rightarrow> Fleet option \<times> store" where
  "getFleet now ident st =
     (case Map_get (fleets st) ident of
        None \<Rightarrow> (None, st)
      | Some fleet \<Rightarrow>
          if f_expiresAt fleet < now
          then (None,
                st\<lparr>fleets := Map_delete ident (fleets st),
                   vehicles := delete_fleet_vehicles ident (vehicles st) (vehicles st)\<rparr>)
          else (Some fleet, st))"

fun find_fleet_by_adminCode :: "time \<Rightarrow> string \<Rightarrow> Fleet list \<Rightarrow> Fleet option" where
  "find_fleet_by_adminCode now adminCode [] = None"
| "find_fleet_by_adminCode now adminCode (fleet # rest) =
     (if f_adminCode fleet = adminCode \<and> now \<le> f_expiresAt fleet then Some fleet
      else find_fleet_by_adminCode now adminCode rest)"

definition getFleetByAdminCode :: "time \<Rightarrow> string \<Rightarrow> store \<Rightarrow> Fleet option" where
  "getFleetByAdminCode now adminCode st =
     find_fleet_by_adminCode now adminCode (Map_values (fleets st))"

definition createFleet ::
    "string \<Rightarrow> string \<Rightarrow> time \<Rightarrow> InsertFleet \<Rightarrow> store \<Rightarrow> error + (Fleet \<times> store)" where
  "createFleet ident adminCode now insertFleet st =
     (let expiresAt =
            new_Date_number (js_add (Finite (real_of_int now)) (Finite (24 * 60 * 60 * 1000)))
      in case toISOString expiresAt of
           Inl e \<Rightarrow> Inl e
         | Inr expiresAtIso \<Rightarrow>
             (let fleet =
                    \<lparr>f_id = ident,
                     f_name = if_name insertFleet,
                     f_createdAt = now,
                     f_expiresAt = expiresAtIso,
                     f_adminCode = adminCode\<rparr>
              in Inr (fleet, st\<lparr>fleets := Map_set ident fleet (fleets st)\<rparr>)))"

definition getVehicle :: "string \<Rightarrow> store \<Rightarrow> Vehicle option" where
  "getVehicle ident st = Map_get (vehicles st) ident"

definition getVehicleByShareCode :: "string \<Rightarrow> store \<Rightarrow> Vehicle option" where
  "getVehicleByShareCode shareCode st =
     List.find (\<lambda>v. v_shareCode v = shareCode) (Map_values (vehicles st))"

definition getVehiclesByFleet :: "time \<Rightarrow> string \<Rightarrow> store \<Rightarrow> Vehicle list \<times> store" where
  "getVehiclesByFleet now fleetId st =
     (case getFleet now fleetId st of
        (None, st1) \<Rightarrow> ([], st1)
      | (Some fleet, st1) \<Rightarrow>
          (filter (\<lambda>vehicle. v_fleetId vehicle = fleetId) (Map_values (vehicles st1)), st1))"

definition createVehicle ::
    "string \<Rightarrow> string \<Rightarrow> time \<Rightarrow> InsertVehicle \<Rightarrow> store \<Rightarrow> Vehicle \<times> store" where
  "createVehicle ident shareCode now insertVehicle st =
     (case getVehiclesByFleet now (iv_fleetId insertVehicle) st of
        (existingVehicles, st1) \<Rightarrow>
          (let colorIndex = length existingVehicles mod length VEHICLE_COLORS;
               vehicle =
                 \<lparr>v_id = ident,
                  v_fleetId = iv_fleetId insertVehicle,
                  v_name = iv_name insertVehicle,
                  v_color = (case truthy (iv_color insertVehicle) of
                               Some c \<Rightarrow> c
                             | None \<Rightarrow> VEHICLE_COLORS ! colorIndex),
                  v_shareCode = shareCode,
                  v_latitude = None,
                  v_longitude = None,
                  v_isLive = False,
                  v_lastUpdated = None\<rparr>
           in (vehicle, st1\<lparr>vehicles := Map_set ident vehicle (vehicles st1)\<rparr>)))"

definition updateVehicle ::
    "time \<Rightarrow> string \<Rightarrow> VehicleUpdate \<Rightarrow> store \<Rightarrow> Vehicle option \<times> store" where
  "updateVehicle now ident update st =
     (case Map_get (vehicles st) ident of
        None \<Rightarrow> (None, st)
      | Some vehicle \<Rightarrow>
          (let updatedVehicle =
                 vehicle\<lparr>v_latitude := Some (vu_latitude update),
                         v_longitude := Some (vu_longitude update),
                         v_lastUpdated := Some now\<rparr>
           in (Some updatedVehicle,
               st\<lparr>vehicles := Map_set ident updatedVehicle (vehicles st)\<rparr>)))"

definition updateVehicleLiveStatus ::
    "time \<Rightarrow> string \<Rightarrow> bool \<Rightarrow> store \<Rightarrow> Vehicle option \<times> store" where
  "updateVehicleLiveStatus now ident isLive st =
     (case Map_get (vehicles st) ident of
        None \<Rightarrow> (None, st)
      | Some vehicle \<Rightarrow>
          (let updatedVehicle = vehicle\<lparr>v_isLive := isLive, v_lastUpdated := Some now\<rparr>
           in (Some updatedVehicle,
               st\<lparr>vehicles := Map_set ident updatedVehicle (vehicles st)\<rparr>)))"

definition deleteVehicle :: "string \<Rightarrow> store \<Rightarrow> bool \<times> store" where
  "deleteVehicle ident st =
     (Map_has (vehicles st) ident, st\<lparr>vehicles := Map_delete ident (vehicles st)\<rparr>)"

section \<open>Schema validation (zod)\<close>

text \<open>
  \<^verbatim>\<open>z.number()\<close> as the zod 3 library parses it: the value must have type number and must
  not be NaN; there is no finiteness check unless \<^verbatim>\<open>.finite()\<close> is chained, which the
  schemas of this repository do not do. An absent property is \<open>None\<close>.
\<close>

definition z_number :: "json option \<Rightarrow> number option" where
  "z_number v =
     (case v of
        Some (JNumber n) \<Rightarrow> if n = NaN then None else Some n
      | _ \<Rightarrow> None)"

text \<open>\<^verbatim>\<open>z.string()\<close>, \<^verbatim>\<open>z.boolean()\<close>: the outer option is success, the inner the value.\<close>

definition z_string :: "json option \<Rightarrow> string option" where
  "z_string v = (case v of Some (JString s) \<Rightarrow> Some s | _ \<Rightarrow> None)"

definition z_string_optional :: "json option \<Rightarrow> string option option" where
  "z_string_optional v =
     (case v of None \<Rightarrow> Some None | Some (JString s) \<Rightarrow> Some (Some s) | _ \<Rightarrow> None)"

definition z_boolean_optional :: "json option \<Rightarrow> bool option option" where
  "z_boolean_optional v =
     (case v of None \<Rightarrow> Some None | Some (JBool b) \<Rightarrow> Some (Some b) | _ \<Rightarrow> None)"

text \<open>\<^verbatim>\<open>z.number().min(1).max(1440).optional()\<close>.\<close>

definition z_expiresInMinutes :: "json option \<Rightarrow> real option option" where
  "z_expiresInMinutes v =
     (case v of
        None \<Rightarrow> Some None
      | Some (JNumber (Finite m)) \<Rightarrow> if 1 \<le> m \<and> m \<le> 1440 then Some (Some m) else None
      | _ \<Rightarrow> None)"

text \<open>
  \<^verbatim>\<open>schema.safeParse(value)\<close> of a \<^verbatim>\<open>z.object\<close>: the value must be an object, every
  property must parse, unknown properties are stripped. \<open>None\<close> is \<^verbatim>\<open>success: false\<close>.
\<close>

definition locationUpdateSchema :: "json option \<Rightarrow> LocationUpdate option" where
  "locationUpdateSchema v =
     (case v of
        Some (JObject props) \<Rightarrow>
          (case (z_number (map_of props ''latitude''), z_number (map_of props ''longitude'')) of
             (Some la, Some lo) \<Rightarrow> Some \<lparr>lu_latitude = la, lu_longitude = lo\<rparr>
           | _ \<Rightarrow> None)
      | _ \<Rightarrow> None)"

definition vehicleUpdateSchema :: "json option \<Rightarrow> VehicleUpdate option" where
  "vehicleUpdateSchema v =
     (case v of
        Some (JObject props) \<Rightarrow>
          (case (z_number (map_of props ''latitude''), z_number (map_of props ''longitude'')) of
             (Some la, Some lo) \<Rightarrow> Some \<lparr>vu_latitude = la, vu_longitude = lo\<rparr>
           | _ \<Rightarrow> None)
      | _ \<Rightarrow> None)"

definition insertLocationSchema :: "json option \<Rightarrow> InsertLocation option" where
  "insertLocationSchema v =
     (case v of
        Some (JObject props) \<Rightarrow>
          (case (z_number (map_of props ''latitude''), z_number (map_of props ''longitude''),
                 z_string_optional (map_of props ''name''),
                 z_boolean_optional (map_of props ''isLive''),
                 z_expiresInMinutes (map_of props ''expiresInMinutes'')) of
             (Some la, Some lo, Some n, Some lv, Some ex) \<Rightarrow>
               Some \<lparr>i_latitude = la, i_longitude = lo, i_name = n, i_isLive = lv,
                     i_expiresInMinutes = ex\<rparr>
           | _ \<Rightarrow> None)
      | _ \<Rightarrow> None)"

definition insertFleetSchema :: "json option \<Rightarrow> InsertFleet option" where
  "insertFleetSchema v =
     (case v of
        Some (JObject props) \<Rightarrow>
          (case z_string (map_of props ''name'') of
             Some n \<Rightarrow> if 1 \<le> length n then Some \<lparr>if_name = n\<rparr> else None
           | None \<Rightarrow> None)
      | _ \<Rightarrow> None)"

definition insertVehicleSchema :: "json option \<Rightarrow> InsertVehicle option" where
  "insertVehicleSchema v =
     (case v of
        Some (JObject props) \<Rightarrow>
          (case (z_string (map_of props ''fleetId''), z_string (map_of props ''name''),
                 z_string_optional (map_of props ''color'')) of
             (Some fid, Some n, Some c) \<Rightarrow>
               if 1 \<le> length n then Some \<lparr>iv_fleetId = fid, iv_name = n, iv_color = c\<rparr>
               else None
           | _ \<Rightarrow> None)
      | _ \<Rightarrow> None)"

section \<open>server/routes.ts: the request/response routes\<close>

text \<open>The objects handed to \<^verbatim>\<open>res.json\<close>; a property whose value is undefined is left out.\<close>

definition opt_prop :: "string \<Rightarrow> ('a \<Rightarrow> json) \<Rightarrow> 'a option \<Rightarrow> (string \<times> json) list" where
  "opt_prop k f v = (case v of None \<Rightarrow> [] | Some x \<Rightarrow> [(k, f x)])"

definition Location_object :: "Location \<Rightarrow> (string \<times> json) list" where
  "Location_object l =
     [(''id'', JString (l_id l)),
      (''latitude'', JNumber (l_latitude l)),
      (''longitude'', JNumber (l_longitude l))]
     @ opt_prop ''name'' JString (l_name l)
     @ [(''createdAt'', JIso (l_createdAt l))]
     @ opt_prop ''expiresAt'' JIso (l_expiresAt l)
     @ opt_prop ''isLive'' JBool (l_isLive l)
     @ opt_prop ''lastUpdated'' JIso (l_lastUpdated l)"

definition Fleet_object :: "Fleet \<Rightarrow> (string \<times> json) list" where
  "Fleet_object fleet =
     [(''id'', JString (f_id fleet)),
      (''name'', JString (f_name fleet)),
      (''createdAt'', JIso (f_createdAt fleet)),
      (''expiresAt'', JIso (f_expiresAt fleet)),
      (''adminCode'', JString (f_adminCode fleet))]"

text \<open>
  A vehicle is created with the properties up to \<^verbatim>\<open>isLive\<close>; the position and the last
  update are added behind them by the first update that sets them, so their order among
  themselves depends on the history of the record. The model lists them in one order.
\<close>

definition Vehicle_object :: "Vehicle \<Rightarrow> (string \<times> json) list" where
  "Vehicle_object v =
     [(''id'', JString (v_id v)),
      (''fleetId'', JString (v_fleetId v)),
      (''name'', JString (v_name v)),
      (''color'', JString (v_color v)),
      (''shareCode'', JString (v_shareCode v)),
      (''isLive'', JBool (v_isLive v))]
     @ opt_prop ''latitude'' JNumber (v_latitude v)
     @ opt_prop ''longitude'' JNumber (v_longitude v)
     @ opt_prop ''lastUpdated'' JIso (v_lastUpdated v)"

text \<open>
  The rest pattern \<^verbatim>\<open>const { key, ...rest } = object\<close>: the own properties of the object
  other than \<open>key\<close>, in order.
\<close>

definition rest_without :: "string \<Rightarrow> (string \<times> json) list \<Rightarrow> (string \<times> json) list" where
  "rest_without key props = filter (\<lambda>(k, v). k \<noteq> key) props"

record response =
  status :: nat
  body :: "json option"

definition json_error :: "nat \<Rightarrow> string \<Rightarrow> response" where
  "json_error code msg = \<lparr>status = code, body = Some (JObject [(''error'', JString msg)])\<rparr>"

definition json_ok :: "nat \<Rightarrow> json \<Rightarrow> response" where
  "json_ok code v = \<lparr>status = code, body = Some v\<rparr>"

definition post_api_locations ::
    "string \<Rightarrow> time \<Rightarrow> json option \<Rightarrow> store \<Rightarrow> response \<times> store" where
  "post_api_locations ident now req_body st =
     (case insertLocationSchema req_body of
        None \<Rightarrow> (json_error 400 ''Invalid location data'', st)
      | Some parsed \<Rightarrow>
          (case createLocation ident now parsed st of
             Inl e \<Rightarrow> (json_error 500 ''Failed to create location'', st)
           | Inr (location, st1) \<Rightarrow> (json_ok 201 (JObject (Location_object location)), st1)))"

definition get_api_locations_id :: "time \<Rightarrow> string \<Rightarrow> store \<Rightarrow> response \<times> store" where
  "get_api_locations_id now ident st =
     (case getLocation now ident st of
        (None, st1) \<Rightarrow> (json_error 404 ''Location not found or expired'', st1)
      | (Some location, st1) \<Rightarrow> (json_ok 200 (JObject (Location_object location)), st1))"

definition delete_api_locations_id :: "string \<Rightarrow> store \<Rightarrow> response \<times> store" where
  "delete_api_locations_id ident st =
     (case deleteLocation ident st of
        (False, st1) \<Rightarrow> (json_error 404 ''Location not found'', st1)
      | (True, st1) \<Rightarrow> (json_ok 200 (JObject [(''success'', JBool True)]), st1))"

definition post_api_fleets ::
    "string \<Rightarrow> string \<Rightarrow> time \<Rightarrow> json option \<Rightarrow> store \<Rightarrow> response \<times> store" where
  "post_api_fleets ident adminCode now req_body st =
     (case insertFleetSchema req_body of
        None \<Rightarrow> (json_error 400 ''Invalid fleet data'', st)
      | Some parsed \<Rightarrow>
          (case createFleet ident adminCode now parsed st of
             Inl e \<Rightarrow> (json_error 500 ''Failed to create fleet'', st)
           | Inr (fleet, st1) \<Rightarrow> (json_ok 201 (JObject (Fleet_object fleet)), st1)))"

definition get_api_fleets_id :: "time \<Rightarrow> string \<Rightarrow> store \<Rightarrow> response \<times> store" where
  "get_api_fleets_id now ident st =
     (case getFleet now ident st of
        (None, st1) \<Rightarrow> (json_error 404 ''Fleet not found or expired'', st1)
      | (Some fleet, st1) \<Rightarrow>
          (let publicFleet = rest_without ''adminCode'' (Fleet_object fleet)
           in (json_ok 200 (JObject publicFleet), st1)))"

definition get_api_fleets_admin :: "time \<Rightarrow> string \<Rightarrow> store \<Rightarrow> response \<times> store" where
  "get_api_fleets_admin now adminCode st =
     (case getFleetByAdminCode now adminCode st of
        None \<Rightarrow> (json_error 404 ''Fleet not found or expired'', st)
      | Some fleet \<Rightarrow> (json_ok 200 (JObject (Fleet_object fleet)), st))"

definition post_api_vehicles ::
    "string \<Rightarrow> string \<Rightarrow> time \<Rightarrow> json option \<Rightarrow> store \<Rightarrow> response \<times> store" where
  "post_api_vehicles ident shareCode now req_body st =
     (case insertVehicleSchema req_body of
        None \<Rightarrow> (json_error 400 ''Invalid vehicle data'', st)
      | Some parsed \<Rightarrow>
          (case getFleet now (iv_fleetId parsed) st of
             (None, st1) \<Rightarrow> (json_error 404 ''Fleet not found'', st1)
           | (Some fleet, st1) \<Rightarrow>
               (case createVehicle ident shareCode now parsed st1 of
                  (vehicle, st2) \<Rightarrow> (json_ok 201 (JObject (Vehicle_object vehicle)), st2))))"

definition get_api_fleets_vehicles :: "time \<Rightarrow> string \<Rightarrow> store \<Rightarrow> response \<times> store" where
  "get_api_fleets_vehicles now fleetId st =
     (case getFleet now fleetId st of
        (None, st1) \<Rightarrow> (json_error 404 ''Fleet not found or expired'', st1)
      | (Some fleet, st1) \<Rightarrow>
          (case getVehiclesByFleet now fleetId st1 of
             (vs, st2) \<Rightarrow> (json_ok 200 (JArray (map (\<lambda>v. JObject (Vehicle_object v)) vs)), st2)))"

definition get_api_vehicles_id :: "string \<Rightarrow> store \<Rightarrow> response \<times> store" where
  "get_api_vehicles_id ident st =
     (case getVehicle ident st of
        None \<Rightarrow> (json_error 404 ''Vehicle not found'', st)
      | Some vehicle \<Rightarrow> (json_ok 200 (JObject (Vehicle_object vehicle)), st))"

definition delete_api_vehicles_id :: "string \<Rightarrow> store \<Rightarrow> response \<times> store" where
  "delete_api_vehicles_id ident st =
     (case deleteVehicle ident st of
        (False, st1) \<Rightarrow> (json_error 404 ''Vehicle not found'', st1)
      | (True, st1) \<Rightarrow> (\<lparr>status = 204, body = None\<rparr>, st1))"

definition get_api_vehicles_share :: "time \<Rightarrow> string \<Rightarrow> store \<Rightarrow> response \<times> store" where
  "get_api_vehicles_share now shareCode st =
     (case getVehicleByShareCode shareCode st of
        None \<Rightarrow> (json_error 404 ''Vehicle not found'', st)
      | Some vehicle \<Rightarrow>
          (case getFleet now (v_fleetId vehicle) st of
             (None, st1) \<Rightarrow> (json_error 404 ''Fleet expired'', st1)
           | (Some fleet, st1) \<Rightarrow>
               (json_ok 200
                  (JObject [(''vehicle'', JObject (Vehicle_object vehicle)),
                            (''fleetName'', JString (f_name fleet)),
                            (''fleetId'', JString (f_id fleet))]),
                st1)))"

text \<open>A request with what it carries; identifiers drawn by \<^verbatim>\<open>nanoid\<close> come with it.\<close>

datatype request =
    POST_locations string "json option"
  | GET_locations_id string
  | DELETE_locations_id string
  | POST_fleets string string "json option"
  | GET_fleets_id string
  | GET_fleets_admin string
  | POST_vehicles string string "json option"
  | GET_fleets_vehicles string
  | GET_vehicles_id string
  | DELETE_vehicles_id string
  | GET_vehicles_share string

fun route :: "time \<Rightarrow> request \<Rightarrow> store \<Rightarrow> response \<times> store" where
  "route now (POST_locations ident b) st = post_api_locations ident now b st"
| "route now (GET_locations_id ident) st = get_api_locations_id now ident st"
| "route now (DELETE_locations_id ident) st = delete_api_locations_id ident st"
| "route now (POST_fleets ident adminCode b) st = post_api_fleets ident adminCode now b st"
| "route now (GET_fleets_id ident) st = get_api_fleets_id now ident st"
| "route now (GET_fleets_admin adminCode) st = get_api_fleets_admin now adminCode st"
| "route now (POST_vehicles ident shareCode b) st = post_api_vehicles ident shareCode now b st"
| "route now (GET_fleets_vehicles fleetId) st = get_api_fleets_vehicles now fleetId st"
| "route now (GET_vehicles_id ident) st = get_api_vehicles_id ident st"
| "route now (DELETE_vehicles_id ident) st = delete_api_vehicles_id ident st"
| "route now (GET_vehicles_share shareCode) st = get_api_vehicles_share now shareCode st"

section \<open>server/routes.ts: the WebSocket server\<close>

text \<open>
  A connection is named by a number. The server state holds the store, the four module-level
  registries, the four variables each connection's handlers close over, the ready state of
  every socket, and the log of the \<^verbatim>\<open>send\<close> calls made so far. The handlers are
  asynchronous functions whose only awaits are on the in-memory store; the model runs each
  handler to its end before the next event is taken.
\<close>

type_synonym ws = nat

datatype readyState = CONNECTING | OPEN | CLOSING | CLOSED

datatype out_message =
    M_location Location
  | M_stopped
  | M_vehicles "Vehicle list"
  | M_vehicleUpdate Vehicle
  | M_vehicleStopped string

record conn =
  subscribedLocationId :: "string option"
  sharingLocationId :: "string option"
  subscribedFleetId :: "string option"
  sharingVehicleId :: "string option"

record server =
  storage :: store
  locationSubscribers :: "(string \<times> ws list) list"
  sharerConnections :: "(string \<times> ws) list"
  fleetSubscribers :: "(string \<times> ws list) list"
  vehicleSharerConnections :: "(string \<times> ws) list"
  conns :: "ws \<Rightarrow> conn"
  readyStateOf :: "ws \<Rightarrow> readyState"
  sent :: "(ws \<times> out_message) list"

definition new_conn :: conn where
  "new_conn = \<lparr>subscribedLocationId = None, sharingLocationId = None,
               subscribedFleetId = None, sharingVehicleId = None\<rparr>"

definition server_init :: server where
  "server_init =
     \<lparr>storage = MemStorage, locationSubscribers = [], sharerConnections = [],
      fleetSubscribers = [], vehicleSharerConnections = [],
      conns = (\<lambda>w. new_conn), readyStateOf = (\<lambda>w. CONNECTING), sent = []\<rparr>"

text \<open>
  The envelope \<^verbatim>\<open>{ type, data?, locationId?, fleetId?, vehicleId? }\<close> a frame parses to; the
  identifiers are strings, as the handler declares them. A frame that is not JSON, or not
  such an object, makes the handler throw into its own \<^verbatim>\<open>catch\<close> or match no branch.
\<close>

record message =
  m_type :: string
  m_locationId :: "string option"
  m_fleetId :: "string option"
  m_vehicleId :: "string option"
  m_data :: "json option"

datatype frame = Unparseable | Envelope message

definition ws_send :: "ws \<Rightarrow> out_message \<Rightarrow> server \<Rightarrow> server" where
  "ws_send w m s = s\<lparr>sent := sent s @ [(w, m)]\<rparr>"

text \<open>
  \<^verbatim>\<open>subscribers.forEach(subscriber => { if (subscriber.readyState === WebSocket.OPEN)
  subscriber.send(m) })\<close>
\<close>

fun forEach_send :: "ws list \<Rightarrow> out_message \<Rightarrow> server \<Rightarrow> server" where
  "forEach_send [] m s = s"
| "forEach_send (subscriber # subscribers) m s =
     forEach_send subscribers m
       (if readyStateOf s subscriber = OPEN then ws_send subscriber m s else s)"

text \<open>\<^verbatim>\<open>const subscribers = registry.get(key); if (subscribers) { ... forEach ... }\<close>\<close>

definition notify :: "(string \<times> ws list) list \<Rightarrow> string \<Rightarrow> out_message \<Rightarrow> server \<Rightarrow> server" where
  "notify registry key m s =
     (case Map_get registry key of
        None \<Rightarrow> s
      | Some subscribers \<Rightarrow> forEach_send subscribers m s)"

text \<open>
  \<^verbatim>\<open>if (!registry.has(key)) registry.set(key, new Set()); registry.get(key)!.add(ws)\<close>
\<close>

definition add_subscriber :: "string \<Rightarrow> ws \<Rightarrow> (string \<times> ws list) list \<Rightarrow> (string \<times> ws list) list" where
  "add_subscriber key w registry =
     (let registry1 = (if \<not> Map_has registry key then Map_set key [] registry else registry)
      in case Map_get registry1 key of
           None \<Rightarrow> registry1
         | Some subscribers \<Rightarrow> Map_set key (Set_add w subscribers) registry1)"

text \<open>
  \<^verbatim>\<open>const subscribers = registry.get(key); if (subscribers) { subscribers.delete(ws);
  if (subscribers.size === 0) registry.delete(key) }\<close>
\<close>

definition remove_subscriber :: "string \<Rightarrow> ws \<Rightarrow> (string \<times> ws list) list \<Rightarrow> (string \<times> ws list) list" where
  "remove_subscriber key w registry =
     (case Map_get registry key of
        None \<Rightarrow> registry
      | Some subscribers \<Rightarrow>
          (let subscribers1 = Set_delete w subscribers
           in if length subscribers1 = 0 then Map_delete key registry
              else Map_set key subscribers1 registry))"

definition on_subscribe :: "ws \<Rightarrow> time \<Rightarrow> string \<Rightarrow> server \<Rightarrow> server" where
  "on_subscribe w now locId s =
     (let s1 = s\<lparr>conns := (conns s)(w := (conns s w)\<lparr>subscribedLocationId := Some locId\<rparr>),
                 locationSubscribers := add_subscriber locId w (locationSubscribers s)\<rparr>
      in case getLocation now locId (storage s1) of
           (None, st1) \<Rightarrow> s1\<lparr>storage := st1\<rparr>
         | (Some location, st1) \<Rightarrow> ws_send w (M_location location) (s1\<lparr>storage := st1\<rparr>))"

definition on_share :: "ws \<Rightarrow> string \<Rightarrow> server \<Rightarrow> server" where
  "on_share w locId s =
     s\<lparr>conns := (conns s)(w := (conns s w)\<lparr>sharingLocationId := Some locId\<rparr>),
       sharerConnections := Map_set locId w (sharerConnections s)\<rparr>"

definition on_update :: "ws \<Rightarrow> time \<Rightarrow> string \<Rightarrow> json option \<Rightarrow> server \<Rightarrow> server" where
  "on_update w now sharingId d s =
     (case locationUpdateSchema d of
        None \<Rightarrow> s
      | Some parsed \<Rightarrow>
          (case updateLocation now sharingId parsed (storage s) of
             (None, st1) \<Rightarrow> s\<lparr>storage := st1\<rparr>
           | (Some updated, st1) \<Rightarrow>
               (let s1 = s\<lparr>storage := st1\<rparr>
                in notify (locationSubscribers s1) sharingId (M_location updated) s1)))"

definition on_stop :: "ws \<Rightarrow> time \<Rightarrow> string \<Rightarrow> server \<Rightarrow> server" where
  "on_stop w now sharingId s =
     (let st1 = (case getLocation now sharingId (storage s) of
                   (None, st') \<Rightarrow> st'
                 | (Some location, st') \<Rightarrow>
                     snd (updateLocation now sharingId
                            \<lparr>lu_latitude = l_latitude location,
                             lu_longitude = l_longitude location\<rparr> st'));
          s1 = s\<lparr>storage := st1\<rparr>;
          s2 = notify (locationSubscribers s1) sharingId M_stopped s1
      in s2\<lparr>sharerConnections := Map_delete sharingId (sharerConnections s2),
            conns := (conns s2)(w := (conns s2 w)\<lparr>sharingLocationId := None\<rparr>)\<rparr>)"

definition on_subscribeFleet :: "ws \<Rightarrow> time \<Rightarrow> string \<Rightarrow> server \<Rightarrow> server" where
  "on_subscribeFleet w now fleetId s =
     (let s1 = s\<lparr>conns := (conns s)(w := (conns s w)\<lparr>subscribedFleetId := Some fleetId\<rparr>),
                 fleetSubscribers := add_subscriber fleetId w (fleetSubscribers s)\<rparr>
      in case getVehiclesByFleet now fleetId (storage s1) of
           (vs, st1) \<Rightarrow> ws_send w (M_vehicles vs) (s1\<lparr>storage := st1\<rparr>))"

definition on_shareVehicle :: "ws \<Rightarrow> time \<Rightarrow> string \<Rightarrow> server \<Rightarrow> server" where
  "on_shareVehicle w now vehicleId s =
     (let s1 = s\<lparr>conns := (conns s)(w := (conns s w)\<lparr>sharingVehicleId := Some vehicleId\<rparr>),
                 vehicleSharerConnections := Map_set vehicleId w (vehicleSharerConnections s)\<rparr>
      in s1\<lparr>storage := snd (updateVehicleLiveStatus now vehicleId True (storage s1))\<rparr>)"

definition on_updateVehicle :: "ws \<Rightarrow> time \<Rightarrow> string \<Rightarrow> json option \<Rightarrow> server \<Rightarrow> server" where
  "on_updateVehicle w now sharingId d s =
     (case vehicleUpdateSchema d of
        None \<Rightarrow> s
      | Some parsed \<Rightarrow>
          (case updateVehicle now sharingId parsed (storage s) of
             (None, st1) \<Rightarrow> s\<lparr>storage := st1\<rparr>
           | (Some updated, st1) \<Rightarrow>
               (let s1 = s\<lparr>storage := st1\<rparr>
                in notify (fleetSubscribers s1) (v_fleetId updated) (M_vehicleUpdate updated) s1)))"

text \<open>
  The body shared by the \<^verbatim>\<open>stopVehicle\<close> branch and the close handler: mark the vehicle
  as not live and tell the subscribers of its fleet, if the vehicle is still in the store.
\<close>

definition vehicle_offline :: "time \<Rightarrow> string \<Rightarrow> server \<Rightarrow> server" where
  "vehicle_offline now sharingId s =
     (case getVehicle sharingId (storage s) of
        None \<Rightarrow> s
      | Some vehicle \<Rightarrow>
          (let s1 = s\<lparr>storage := snd (updateVehicleLiveStatus now sharingId False (storage s))\<rparr>
           in notify (fleetSubscribers s1) (v_fleetId vehicle) (M_vehicleStopped sharingId) s1))"

definition on_stopVehicle :: "ws \<Rightarrow> time \<Rightarrow> string \<Rightarrow> server \<Rightarrow> server" where
  "on_stopVehicle w now sharingId s =
     (let s1 = vehicle_offline now sharingId s
      in s1\<lparr>vehicleSharerConnections := Map_delete sharingId (vehicleSharerConnections s1),
            conns := (conns s1)(w := (conns s1 w)\<lparr>sharingVehicleId := None\<rparr>)\<rparr>)"

text \<open>
  \<^verbatim>\<open>message.type === t && value\<close>: the value when the type matches and the value is truthy.
\<close>

definition guard :: "message \<Rightarrow> string \<Rightarrow> string option \<Rightarrow> string option" where
  "guard m t v = (if m_type m = t then truthy v else None)"

definition on_message :: "ws \<Rightarrow> time \<Rightarrow> frame \<Rightarrow> server \<Rightarrow> server" where
  "on_message w now fr s =
     (case fr of
        Unparseable \<Rightarrow> s
      | Envelope m \<Rightarrow>
     (case guard m ''subscribe'' (m_locationId m) of
        Some locId \<Rightarrow> on_subscribe w now locId s
      | None \<Rightarrow>
     (case guard m ''share'' (m_locationId m) of
        Some locId \<Rightarrow> on_share w locId s
      | None \<Rightarrow>
     (case guard m ''update'' (sharingLocationId (conns s w)) of
        Some sharingId \<Rightarrow> on_update w now sharingId (m_data m) s
      | None \<Rightarrow>
     (case guard m ''stop'' (sharingLocationId (conns s w)) of
        Some sharingId \<Rightarrow> on_stop w now sharingId s
      | None \<Rightarrow>
     (case guard m ''subscribeFleet'' (m_fleetId m) of
        Some fleetId \<Rightarrow> on_subscribeFleet w now fleetId s
      | None \<Rightarrow>
     (case guard m ''shareVehicle'' (m_vehicleId m) of
        Some vehicleId \<Rightarrow> on_shareVehicle w now vehicleId s
      | None \<Rightarrow>
     (case guard m ''updateVehicle'' (sharingVehicleId (conns s w)) of
        Some sharingId \<Rightarrow> on_updateVehicle w now sharingId (m_data m) s
      | None \<Rightarrow>
     (case guard m ''stopVehicle'' (sharingVehicleId (conns s w)) of
        Some sharingId \<Rightarrow> on_stopVehicle w now sharingId s
      | None \<Rightarrow> s)))))))))"

text \<open>The four steps of the close handler, in the order of the source.\<close>

definition close_subscriber :: "ws \<Rightarrow> server \<Rightarrow> server" where
  "close_subscriber w s =
     (case truthy (subscribedLocationId (conns s w)) of
        None \<Rightarrow> s
      | Some k \<Rightarrow> s\<lparr>locationSubscribers := remove_subscriber k w (locationSubscribers s)\<rparr>)"

definition close_sharer :: "ws \<Rightarrow> server \<Rightarrow> server" where
  "close_sharer w s =
     (case truthy (sharingLocationId (conns s w)) of
        None \<Rightarrow> s
      | Some k \<Rightarrow>
          (let s1 = s\<lparr>sharerConnections := Map_delete k (sharerConnections s)\<rparr>
           in notify (locationSubscribers s1) k M_stopped s1))"

definition close_fleet_subscriber :: "ws \<Rightarrow> server \<Rightarrow> server" where
  "close_fleet_subscriber w s =
     (case truthy (subscribedFleetId (conns s w)) of
        None \<Rightarrow> s
      | Some k \<Rightarrow> s\<lparr>fleetSubscribers := remove_subscriber k w (fleetSubscribers s)\<rparr>)"

definition close_vehicle_sharer :: "ws \<Rightarrow> time \<Rightarrow> server \<Rightarrow> server" where
  "close_vehicle_sharer w now s =
     (case truthy (sharingVehicleId (conns s w)) of
        None \<Rightarrow> s
      | Some k \<Rightarrow>
          (let s1 = vehicle_offline now k s
           in s1\<lparr>vehicleSharerConnections := Map_delete k (vehicleSharerConnections s1)\<rparr>))"

definition on_close :: "ws \<Rightarrow> time \<Rightarrow> server \<Rightarrow> server" where
  "on_close w now s =
     close_vehicle_sharer w now (close_fleet_subscriber w (close_sharer w (close_subscriber w s)))"

text \<open>
  The events of the server. A socket is handed to the connection handler once, receives
  frames while it is open, and is already closed when its close handler runs.
\<close>

definition on_connection :: "ws \<Rightarrow> server \<Rightarrow> server" where
  "on_connection w s =
     s\<lparr>conns := (conns s)(w := new_conn), readyStateOf := (readyStateOf s)(w := OPEN)\<rparr>"

definition transport_close :: "ws \<Rightarrow> time \<Rightarrow> server \<Rightarrow> server" where
  "transport_close w now s = on_close w now (s\<lparr>readyStateOf := (readyStateOf s)(w := CLOSED)\<rparr>)"

definition on_request :: "time \<Rightarrow> request \<Rightarrow> server \<Rightarrow> server" where
  "on_request now req s = s\<lparr>storage := snd (route now req (storage s))\<rparr>"

inductive reachable :: "server \<Rightarrow> bool" where
  r_init: "reachable server_init"
| r_connection: "reachable s \<Longrightarrow> readyStateOf s w = CONNECTING \<Longrightarrow> reachable (on_connection w s)"
| r_message: "reachable s \<Longrightarrow> readyStateOf s w = OPEN \<Longrightarrow> reachable (on_message w now fr s)"
| r_close: "reachable s \<Longrightarrow> readyStateOf s w = OPEN \<Longrightarrow> reachable (transport_close w now s)"
| r_request: "reachable s \<Longrightarrow> reachable (on_request now req s)"

section \<open>A run of the server\<close>

text \<open>
  The scenario of the fleet "Resort Buggies": a solo location shared for 15 minutes, a fleet
  with two vehicles, then four sockets: 1 publishes the location, 2 views it, 3 publishes
  the first vehicle, 4 views the fleet.
\<close>

definition scenario_requests :: "(time \<times> request) list" where
  "scenario_requests =
     [(0, POST_locations ''loc1''
            (Some (JObject [(''latitude'', JNumber (Finite 40)),
                            (''longitude'', JNumber (Finite (- 73))),
                            (''isLive'', JBool True),
                            (''expiresInMinutes'', JNumber (Finite 15))]))),
      (0, POST_fleets ''fl1'' ''adm'' (Some (JObject [(''name'', JString ''Resort Buggies'')]))),
      (1, POST_vehicles ''v1'' ''s1''
            (Some (JObject [(''fleetId'', JString ''fl1''), (''name'', JString ''Buggy 1'')]))),
      (2, POST_vehicles ''v2'' ''s2''
            (Some (JObject [(''fleetId'', JString ''fl1''), (''name'', JString ''Buggy 2'')])))]"

definition scenario_created :: server where
  "scenario_created = fold (\<lambda>(now, req). on_request now req) scenario_requests server_init"

definition envelope :: "string \<Rightarrow> message" where
  "envelope t =
     \<lparr>m_type = t, m_locationId = None, m_fleetId = None, m_vehicleId = None, m_data = None\<rparr>"

definition scenario_server :: server where
  "scenario_server =
     on_message 4 13 (Envelope ((envelope ''subscribeFleet'')\<lparr>m_fleetId := Some ''fl1''\<rparr>))
       (on_connection 4
     (on_message 3 12 (Envelope ((envelope ''shareVehicle'')\<lparr>m_vehicleId := Some ''v1''\<rparr>))
       (on_connection 3
     (on_message 2 11 (Envelope ((envelope ''subscribe'')\<lparr>m_locationId := Some ''loc1''\<rparr>))
       (on_connection 2
     (on_message 1 10 (Envelope ((envelope ''share'')\<lparr>m_locationId := Some ''loc1''\<rparr>))
       (on_connection 1 scenario_created)))))))"

text \<open>The records the scenario leaves in the store.\<close>

definition loc1 :: Location where
  "loc1 = \<lparr>l_id = ''loc1'', l_latitude = Finite 40, l_longitude = Finite (- 73),
            l_name = None, l_createdAt = 0, l_expiresAt = Some 900000,
            l_isLive = Some True, l_lastUpdated = Some 0\<rparr>"

definition fl1 :: Fleet where
  "fl1 = \<lparr>f_id = ''fl1'', f_name = ''Resort Buggies'', f_createdAt = 0,
           f_expiresAt = 86400000, f_adminCode = ''adm''\<rparr>"

definition buggy1 :: Vehicle where
  "buggy1 = \<lparr>v_id = ''v1'', v_fleetId = ''fl1'', v_name = ''Buggy 1'', v_color = ''#ef4444'',
              v_shareCode = ''s1'', v_latitude = None, v_longitude = None,
              v_isLive = True, v_lastUpdated = Some 12\<rparr>"

definition buggy2 :: Vehicle where
  "buggy2 = \<lparr>v_id = ''v2'', v_fleetId = ''fl1'', v_name = ''Buggy 2'', v_color = ''#3b82f6'',
              v_shareCode = ''s2'', v_latitude = None, v_longitude = None,
              v_isLive = False, v_lastUpdated = None\<rparr>"

definition scenario_store :: store where
  "scenario_store =
     \<lparr>locations = [(''loc1'', loc1)], fleets = [(''fl1'', fl1)],
      vehicles = [(''v1'', buggy1), (''v2'', buggy2)]\<rparr>"

text \<open>
  After the scenario socket 1 announces a second location and socket 3 a second vehicle:
  each is still the registered publisher of the first key, and now closes over the second.
\<close>

definition reshare_server :: server where
  "reshare_server =
     on_message 3 15 (Envelope ((envelope ''shareVehicle'')\<lparr>m_vehicleId := Some ''v2''\<rparr>))
       (on_message 1 14 (Envelope ((envelope ''share'')\<lparr>m_locationId := Some ''loc2''\<rparr>))
          scenario_server)"

text \<open>
  The double nearest to 1.07945, which is what \<^verbatim>\<open>JSON.parse\<close> reads from \<^verbatim>\<open>1.07945\<close>, and
  a request body that asks for that many minutes.
\<close>

definition fractional_minutes :: real where
  "fractional_minutes = 2430705308882541 / 2251799813685248"

definition fractional_body :: "json option" where
  "fractional_body =
     Some (JObject [(''latitude'', JNumber (Finite 40)),
                    (''longitude'', JNumber (Finite (- 73))),
                    (''expiresInMinutes'', JNumber (Finite fractional_minutes))])"

definition fractional_insert :: InsertLocation where
  "fractional_insert =
     \<lparr>i_latitude = Finite 40, i_longitude = Finite (- 73), i_name = None, i_isLive = None,
      i_expiresInMinutes = Some fractional_minutes\<rparr>"

text \<open>The record the store keeps for that request at clock 0, and for one that asks for 0 minutes.\<close>

definition loc3 :: Location where
  "loc3 = \<lparr>l_id = ''loc3'', l_latitude = Finite 40, l_longitude = Finite (- 73),
            l_name = None, l_createdAt = 0, l_expiresAt = Some 64766,
            l_isLive = Some False, l_lastUpdated = Some 0\<rparr>"

definition loc4 :: Location where
  "loc4 = \<lparr>l_id = ''loc4'', l_latitude = Finite 40, l_longitude = Finite (- 73),
            l_name = None, l_createdAt = 0, l_expiresAt = Some 86400000,
            l_isLive = Some False, l_lastUpdated = Some 0\<rparr>"

text \<open>An update whose latitude is the number \<^verbatim>\<open>JSON.parse\<close> gives for \<^verbatim>\<open>1e999\<close>.\<close>

definition infinite_update :: message where
  "infinite_update =
     (envelope ''update'')
       \<lparr>m_data := Some (JObject [(''latitude'', JNumber PosInfinity),
                                 (''longitude'', JNumber (Finite 0))])\<rparr>"

section \<open>Containers and dates\<close>

lemma Map_get_set: "Map_get (Map_set k v m) k' = (if k' = k then Some v else Map_get m k')"
  by (simp add: Map_get_def Map_set_def update_conv')

lemma Map_get_delete: "Map_get (Map_delete k m) k' = (if k' = k then None else Map_get m k')"
  by (simp add: Map_get_def Map_delete_def delete_conv')

lemma distinct_Map_set: "distinct (map fst m) \<Longrightarrow> distinct (map fst (Map_set k v m))"
  by (simp add: Map_set_def distinct_update)

lemma distinct_Map_delete: "distinct (map fst m) \<Longrightarrow> distinct (map fst (Map_delete k m))"
  by (simp add: Map_delete_def distinct_delete)

lemma Map_set_fresh: "k \<notin> fst ` set m \<Longrightarrow> Map_set k v m = m @ [(k, v)]"
  unfolding Map_set_def by (induction m) auto

lemma distinct_one_entry:
  "distinct (map fst m) \<Longrightarrow> Map_get m k = Some v \<Longrightarrow> filter (\<lambda>e. fst e = k) m = [(k, v)]"
proof (induction m)
  case Nil
  then show ?case by (simp add: Map_get_def)
next
  case (Cons e m)
  show ?case
  proof (cases "fst e = k")
    case True
    with Cons.prems have "k \<notin> fst ` set m" by simp
    then have "\<forall>x \<in> set m. fst x \<noteq> k" by force
    then have "filter (\<lambda>e. fst e = k) m = []" by (simp add: filter_empty_conv)
    with True Cons.prems show ?thesis by (cases e) (simp add: Map_get_def)
  next
    case False
    with Cons show ?thesis by (simp add: Map_get_def)
  qed
qed

text \<open>Rounding: integers below \<open>2\<^sup>5\<^sup>3\<close> are doubles, and are what they round to.\<close>

lemma rne_of_int: "rne (of_int z) = z"
  by (simp add: rne_def)

lemma floor_log2_eq:
  assumes "2 ^ e \<le> x" and "x < 2 ^ Suc e"
  shows "\<lfloor>log 2 x\<rfloor> = int e"
proof -
  have "(0::real) < 2 ^ e" by simp
  with assms(1) have pos: "0 < x" by linarith
  have "2 powr real_of_int (int e) \<le> x" using assms(1) by (simp add: powr_realpow)
  moreover have "x < 2 powr real_of_int (int e + 1)"
    using assms(2) by (simp add: powr_realpow powr_add)
  ultimately show ?thesis using pos by (simp add: floor_log_eq_powr_iff)
qed

lemma ulp_eq:
  assumes "2 ^ e \<le> \<bar>x\<bar>" and "\<bar>x\<bar> < 2 ^ Suc e"
  shows "ulp x = pow2 (int e - 52)"
  using floor_log2_eq[OF assms] by (simp add: ulp_def)

lemma pow2_nonpos: "e \<le> 0 \<Longrightarrow> pow2 e = 1 / 2 ^ nat (- e)"
  by (cases "e = 0") (simp_all add: pow2_def)

lemma rne_bound: "\<bar>real_of_int (rne q)\<bar> \<le> \<bar>q\<bar> + 1"
  unfolding rne_def Let_def by (auto split: if_splits) linarith+

lemma fl_eval:
  assumes lo: "2 ^ e \<le> \<bar>x\<bar>" and hi: "\<bar>x\<bar> < 2 ^ Suc e" and e: "e \<le> 52"
    and n: "rne (x * 2 ^ (52 - e)) = n"
  shows "fl x = Finite (real_of_int n / 2 ^ (52 - e))"
proof -
  have "(0::real) < 2 ^ e" by simp
  with lo have "0 < \<bar>x\<bar>" by linarith
  then have x0: "x \<noteq> 0" by simp
  have "int e - 52 \<le> 0" using e by simp
  from pow2_nonpos[OF this] have u: "ulp x = 1 / 2 ^ (52 - e)"
    using ulp_eq[OF lo hi] e by (simp add: nat_diff_distrib')
  have q: "x / ulp x = x * 2 ^ (52 - e)" by (simp add: u)
  have r: "real_of_int (rne (x / ulp x)) * ulp x = real_of_int n / 2 ^ (52 - e)"
    by (simp add: q n u)
  have "\<bar>x * 2 ^ (52 - e)\<bar> < 2 ^ Suc e * 2 ^ (52 - e)"
    using hi by (simp add: abs_mult)
  also have "\<dots> = (2::real) ^ 53" using e by (simp add: power_add[symmetric] del: power_Suc)
  finally have "\<bar>x * 2 ^ (52 - e)\<bar> < 2 ^ 53" .
  with rne_bound[of "x * 2 ^ (52 - e)"] n have nb: "\<bar>real_of_int n\<bar> < 2 ^ 53 + 1" by simp
  have "\<bar>real_of_int n / 2 ^ (52 - e)\<bar> \<le> \<bar>real_of_int n\<bar>"
    by (simp add: abs_divide divide_le_eq_1 field_simps mult_le_cancel_left1)
  moreover have "(2::real) ^ 53 + 1 \<le> 2 ^ 1024" by simp
  ultimately have "\<not> 2 ^ 1024 \<le> \<bar>real_of_int n / 2 ^ (52 - e)\<bar>" using nb by linarith
  with x0 r show ?thesis by (simp add: fl_def Let_def)
qed

lemma rne_half: "\<bar>real_of_int (rne q) - q\<bar> \<le> 1 / 2"
  unfolding rne_def Let_def by (auto split: if_splits)

lemma exponent_exists:
  assumes x1: "1 \<le> \<bar>x::real\<bar>" and x2: "\<bar>x\<bar> < 2 ^ 53"
  shows "\<exists>e\<le>52. 2 ^ e \<le> \<bar>x\<bar> \<and> \<bar>x\<bar> < 2 ^ Suc e"
proof -
  define e where "e = nat \<lfloor>log 2 \<bar>x\<bar>\<rfloor>"
  have l0: "0 \<le> log 2 \<bar>x\<bar>" using x1 by simp
  then have ie: "int e = \<lfloor>log 2 \<bar>x\<bar>\<rfloor>" by (simp add: e_def)
  have "\<bar>x\<bar> < 2 powr 53" using x2 by simp
  then have "log 2 \<bar>x\<bar> < 53" using x1 by (simp add: log_less_iff)
  then have "\<lfloor>log 2 \<bar>x\<bar>\<rfloor> < 53" by (simp add: floor_less_iff)
  then have e52: "e \<le> 52" using ie by linarith
  have pos: "0 < \<bar>x\<bar>" using x1 by linarith
  have b: "2 powr real_of_int (int e) \<le> \<bar>x\<bar> \<and> \<bar>x\<bar> < 2 powr real_of_int (int e + 1)"
    using floor_log_eq_powr_iff[of "\<bar>x\<bar>" 2 "int e"] pos ie by simp
  have lo: "2 ^ e \<le> \<bar>x\<bar>" using b by (simp add: powr_realpow)
  have hi: "\<bar>x\<bar> < 2 ^ Suc e" using b by (simp add: powr_realpow powr_add)
  from e52 lo hi show ?thesis by blast
qed

lemma fl_of_int:
  assumes "\<bar>z\<bar> < 2 ^ 53"
  shows "fl (real_of_int z) = Finite (real_of_int z)"
proof (cases "z = 0")
  case True
  then show ?thesis by (simp add: fl_def)
next
  case False
  let ?x = "real_of_int z"
  have x1: "1 \<le> \<bar>?x\<bar>" using False by simp
  have "real_of_int \<bar>z\<bar> < real_of_int (2 ^ 53)" using assms by (simp only: of_int_less_iff)
  then have x2: "\<bar>?x\<bar> < 2 ^ 53" by simp
  from exponent_exists[OF x1 x2] obtain e where e52: "e \<le> 52"
    and lo: "2 ^ e \<le> \<bar>?x\<bar>" and hi: "\<bar>?x\<bar> < 2 ^ Suc e" by blast
  have "?x * 2 ^ (52 - e) = real_of_int (z * 2 ^ (52 - e))" by simp
  then have n: "rne (?x * 2 ^ (52 - e)) = z * 2 ^ (52 - e)" by (simp only: rne_of_int)
  from fl_eval[OF lo hi e52 n] show ?thesis by simp
qed

text \<open>The relative error of one rounding is at most \<open>2\<^sup>-\<^sup>5\<^sup>3\<close>.\<close>

lemma fl_rel:
  assumes x1: "1 \<le> x" and x2: "x < 2 ^ 53"
  shows "\<exists>r. fl x = Finite r \<and> \<bar>r - x\<bar> \<le> x / 2 ^ 53"
proof -
  have a1: "1 \<le> \<bar>x\<bar>" and a2: "\<bar>x\<bar> < 2 ^ 53" using x1 x2 by simp_all
  from exponent_exists[OF a1 a2] obtain e where e52: "e \<le> 52"
    and lo: "2 ^ e \<le> \<bar>x\<bar>" and hi: "\<bar>x\<bar> < 2 ^ Suc e" by blast
  define n where "n = rne (x * 2 ^ (52 - e))"
  have f: "fl x = Finite (real_of_int n / 2 ^ (52 - e))"
    using fl_eval[OF lo hi e52] by (simp add: n_def)
  have "\<bar>real_of_int n - x * 2 ^ (52 - e)\<bar> \<le> 1 / 2"
    unfolding n_def by (rule rne_half)
  then have "\<bar>real_of_int n - x * 2 ^ (52 - e)\<bar> / 2 ^ (52 - e) \<le> (1 / 2) / 2 ^ (52 - e)"
    by (intro divide_right_mono) simp_all
  moreover have "\<bar>real_of_int n - x * 2 ^ (52 - e)\<bar> / 2 ^ (52 - e)
                 = \<bar>real_of_int n / 2 ^ (52 - e) - x\<bar>"
  proof -
    have "real_of_int n / 2 ^ (52 - e) - x = (real_of_int n - x * 2 ^ (52 - e)) / 2 ^ (52 - e)"
      by (simp add: field_simps)
    then show ?thesis by (simp add: abs_divide)
  qed
  moreover have "(1 / 2) / 2 ^ (52 - e) = (2::real) ^ e / 2 ^ 53"
  proof -
    have "(2::real) ^ 53 = 2 ^ e * 2 ^ (52 - e) * 2"
      using e52 by (simp add: power_add[symmetric])
    then show ?thesis by (simp add: field_simps)
  qed
  moreover have "(2::real) ^ e / 2 ^ 53 \<le> x / 2 ^ 53"
    using lo x1 by (simp add: divide_right_mono)
  ultimately have "\<bar>real_of_int n / 2 ^ (52 - e) - x\<bar> \<le> x / 2 ^ 53" by linarith
  with f show ?thesis by blast
qed

lemma fl_numeral:
  "(numeral w :: int) < 2 ^ 53 \<Longrightarrow> fl (numeral w) = Finite (numeral w)"
  using fl_of_int[of "numeral w"] by simp

text \<open>
  For whole minutes the three operations of the expiry computation are exact as long as the
  product and the sum stay below \<open>2\<^sup>5\<^sup>3\<close>.
\<close>

lemma expiry_whole:
  assumes "\<bar>k * 60000\<bar> < 2 ^ 53" and "\<bar>now + k * 60000\<bar> < 2 ^ 53"
  shows "js_add (Finite (real_of_int now))
           (js_mul (js_mul (Finite (real_of_int k)) (Finite 60)) (Finite 1000))
         = Finite (real_of_int (now + k * 60000))"
proof -
  have "\<bar>k * 60\<bar> < 2 ^ 53" using assms(1) by (simp add: abs_mult)
  then have "fl (real_of_int (k * 60)) = Finite (real_of_int (k * 60))" by (rule fl_of_int)
  moreover have "real_of_int k * 60 = real_of_int (k * 60)" by simp
  ultimately have a: "js_mul (Finite (real_of_int k)) (Finite 60) = Finite (real_of_int (k * 60))"
    by (simp only: js_mul.simps)
  have "fl (real_of_int (k * 60000)) = Finite (real_of_int (k * 60000))"
    using assms(1) by (rule fl_of_int)
  moreover have "real_of_int (k * 60) * 1000 = real_of_int (k * 60000)" by simp
  ultimately have b: "js_mul (Finite (real_of_int (k * 60))) (Finite 1000)
                  = Finite (real_of_int (k * 60000))"
    by (simp only: js_mul.simps)
  have "fl (real_of_int (now + k * 60000)) = Finite (real_of_int (now + k * 60000))"
    using assms(2) by (rule fl_of_int)
  moreover have "real_of_int now + real_of_int (k * 60000) = real_of_int (now + k * 60000)"
    by simp
  ultimately have c: "js_add (Finite (real_of_int now)) (Finite (real_of_int (k * 60000)))
                  = Finite (real_of_int (now + k * 60000))"
    by (simp only: js_add.simps)
  show ?thesis by (simp only: a b c)
qed

text \<open>
  For fractional minutes in the range of the schema each operation rounds; the result is a
  valid time value less than one millisecond away from the exact sum.
\<close>

lemma expiry_fractional:
  assumes m: "1 \<le> m" "m \<le> 1440" and now: "0 \<le> now" "now \<le> 8000000000000000"
  shows "\<exists>s. js_add (Finite (real_of_int now)) (js_mul (js_mul (Finite m) (Finite 60)) (Finite 1000))
               = Finite s
             \<and> 0 \<le> s \<and> s \<le> 8640000000000000
             \<and> \<bar>s - (real_of_int now + m * 60000)\<bar> < 1"
proof -
  have p53: "(2::real) ^ 53 = 9007199254740992" by simp
  have x1: "1 \<le> m * 60" "m * 60 < 2 ^ 53" using m by (simp_all add: p53)
  from fl_rel[OF x1] obtain p1 where p1: "fl (m * 60) = Finite p1"
    and e1: "\<bar>p1 - m * 60\<bar> \<le> m * 60 / 2 ^ 53" by blast
  have "m * 60 / 2 ^ 53 \<le> 1 / 100000000000" using m by (simp add: p53)
  with e1 have d1: "\<bar>p1 - m * 60\<bar> \<le> 1 / 100000000000" by linarith
  have b1: "59 \<le> p1" "p1 \<le> 86401" using d1 m by linarith+
  have x2: "1 \<le> p1 * 1000" "p1 * 1000 < 2 ^ 53" using b1 by (simp_all add: p53)
  from fl_rel[OF x2] obtain p2 where p2: "fl (p1 * 1000) = Finite p2"
    and e2: "\<bar>p2 - p1 * 1000\<bar> \<le> p1 * 1000 / 2 ^ 53" by blast
  have "p1 * 1000 / 2 ^ 53 \<le> 1 / 100000000" using b1 by (simp add: p53)
  with e2 have d2: "\<bar>p2 - p1 * 1000\<bar> \<le> 1 / 100000000" by linarith
  have d12: "\<bar>p2 - m * 60000\<bar> \<le> 2 / 100000000" using d1 d2 by linarith
  have b2: "59000 \<le> p2" "p2 \<le> 86400001" using d12 m by linarith+
  have n: "0 \<le> real_of_int now" "real_of_int now \<le> 8000000000000000" using now by simp_all
  have x3: "1 \<le> real_of_int now + p2" "real_of_int now + p2 < 2 ^ 53"
    using b2 n by (simp_all add: p53)
  from fl_rel[OF x3] obtain s where s: "fl (real_of_int now + p2) = Finite s"
    and e3: "\<bar>s - (real_of_int now + p2)\<bar> \<le> (real_of_int now + p2) / 2 ^ 53" by blast
  have "(real_of_int now + p2) / 2 ^ 53 \<le> 9 / 10" using b2 n by (simp add: p53)
  with e3 have d3: "\<bar>s - (real_of_int now + p2)\<bar> \<le> 9 / 10" by linarith
  have eq: "js_add (Finite (real_of_int now)) (js_mul (js_mul (Finite m) (Finite 60)) (Finite 1000))
          = Finite s"
    by (simp add: p1 p2 s)
  have s0: "0 \<le> s" using d3 b2 n by linarith
  have s1: "s \<le> 8640000000000000" using d3 b2 n by linarith
  have err: "\<bar>s - (real_of_int now + m * 60000)\<bar> < 1" using d3 d12 by linarith
  from eq s0 s1 err show ?thesis by blast
qed

section \<open>The store\<close>

lemma getLocation_absent:
  "Map_get (locations st) ident = None \<Longrightarrow> getLocation t ident st = (None, st)"
  by (simp add: getLocation_def)

lemma getLocation_expired:
  assumes "Map_get (locations st) ident = Some location"
    and "l_expiresAt location = Some e" and "e < t"
  shows "getLocation t ident st = (None, st\<lparr>locations := Map_delete ident (locations st)\<rparr>)"
  using assms by (simp add: getLocation_def)

lemma getLocation_live:
  assumes "Map_get (locations st) ident = Some location"
    and "\<forall>e. l_expiresAt location = Some e \<longrightarrow> now \<le> e"
  shows "getLocation now ident st = (Some location, st)"
  using assms by (auto simp add: getLocation_def split: option.splits)

lemma getFleet_absent:
  "Map_get (fleets st) ident = None \<Longrightarrow> getFleet t ident st = (None, st)"
  by (simp add: getFleet_def)

lemma getFleet_expired:
  assumes "Map_get (fleets st) ident = Some fleet" and "f_expiresAt fleet < t"
  shows "getFleet t ident st =
    (None, st\<lparr>fleets := Map_delete ident (fleets st),
              vehicles := delete_fleet_vehicles ident (vehicles st) (vehicles st)\<rparr>)"
  using assms by (simp add: getFleet_def)

lemma getFleet_live:
  assumes "Map_get (fleets st) ident = Some fleet" and "now \<le> f_expiresAt fleet"
  shows "getFleet now ident st = (Some fleet, st)"
  using assms by (simp add: getFleet_def)

text \<open>The cascade: a key once deleted stays deleted, and every entry of the fleet is deleted.\<close>

lemma delete_fleet_vehicles_keeps_None:
  "Map_get m k = None \<Longrightarrow> Map_get (delete_fleet_vehicles fid es m) k = None"
  by (induction fid es m rule: delete_fleet_vehicles.induct) (simp_all add: Map_get_delete)

lemma delete_fleet_vehicles_member:
  "(k, v) \<in> set es \<Longrightarrow> v_fleetId v = fid \<Longrightarrow> Map_get (delete_fleet_vehicles fid es m) k = None"
proof (induction fid es m rule: delete_fleet_vehicles.induct)
  case (1 ident m)
  then show ?case by simp
next
  case (2 ident vehicleId vehicle vehicleEntries m)
  show ?case
  proof (cases "(k, v) = (vehicleId, vehicle)")
    case True
    with "2.prems" show ?thesis
      by (simp add: delete_fleet_vehicles_keeps_None Map_get_delete)
  next
    case False
    with "2.prems" have "(k, v) \<in> set vehicleEntries" by auto
    with "2.IH" "2.prems" show ?thesis by simp
  qed
qed

section \<open>Fan-out and the handlers\<close>

lemma forEach_send_eq:
  "forEach_send subs m s =
     s\<lparr>sent := sent s @ map (\<lambda>x. (x, m)) (filter (\<lambda>x. readyStateOf s x = OPEN) subs)\<rparr>"
  by (induction subs arbitrary: s) (simp_all add: ws_send_def)

lemma notify_eq:
  "notify reg k m s =
     s\<lparr>sent := sent s @
        (case Map_get reg k of
           None \<Rightarrow> []
         | Some subs \<Rightarrow> map (\<lambda>x. (x, m)) (filter (\<lambda>x. readyStateOf s x = OPEN) subs))\<rparr>"
  by (simp add: notify_def forEach_send_eq split: option.splits)

lemma remove_subscriber_keeps:
  assumes "Map_get reg k = Some subs" and "sub \<in> set subs" and "sub \<noteq> w"
  shows "\<exists>subs1. Map_get (remove_subscriber k' w reg) k = Some subs1 \<and> sub \<in> set subs1"
proof (cases "Map_get reg k'")
  case None
  with assms show ?thesis by (simp add: remove_subscriber_def)
next
  case (Some ss)
  show ?thesis
  proof (cases "k' = k")
    case True
    with Some assms have "sub \<in> set (Set_delete w ss)" by (simp add: Set_delete_def)
    moreover from this have "Set_delete w ss \<noteq> []" by auto
    ultimately show ?thesis using Some True
      by (simp add: remove_subscriber_def Let_def Map_get_set)
  next
    case False
    with Some assms show ?thesis
      by (simp add: remove_subscriber_def Let_def Map_get_set Map_get_delete)
  qed
qed

lemma close_subscriber_fields:
  "storage (close_subscriber w s) = storage s"
  "sharerConnections (close_subscriber w s) = sharerConnections s"
  "fleetSubscribers (close_subscriber w s) = fleetSubscribers s"
  "vehicleSharerConnections (close_subscriber w s) = vehicleSharerConnections s"
  "conns (close_subscriber w s) = conns s"
  "readyStateOf (close_subscriber w s) = readyStateOf s"
  "sent (close_subscriber w s) = sent s"
  by (simp_all add: close_subscriber_def split: option.splits)

lemma close_sharer_fields:
  "storage (close_sharer w s) = storage s"
  "locationSubscribers (close_sharer w s) = locationSubscribers s"
  "fleetSubscribers (close_sharer w s) = fleetSubscribers s"
  "vehicleSharerConnections (close_sharer w s) = vehicleSharerConnections s"
  "conns (close_sharer w s) = conns s"
  "readyStateOf (close_sharer w s) = readyStateOf s"
  by (simp_all add: close_sharer_def notify_eq Let_def split: option.splits)

lemma close_fleet_subscriber_fields:
  "storage (close_fleet_subscriber w s) = storage s"
  "locationSubscribers (close_fleet_subscriber w s) = locationSubscribers s"
  "sharerConnections (close_fleet_subscriber w s) = sharerConnections s"
  "vehicleSharerConnections (close_fleet_subscriber w s) = vehicleSharerConnections s"
  "conns (close_fleet_subscriber w s) = conns s"
  "readyStateOf (close_fleet_subscriber w s) = readyStateOf s"
  "sent (close_fleet_subscriber w s) = sent s"
  by (simp_all add: close_fleet_subscriber_def split: option.splits)

lemma vehicle_offline_fields:
  "locations (storage (vehicle_offline now k s)) = locations (storage s)"
  "fleets (storage (vehicle_offline now k s)) = fleets (storage s)"
  "locationSubscribers (vehicle_offline now k s) = locationSubscribers s"
  "sharerConnections (vehicle_offline now k s) = sharerConnections s"
  "fleetSubscribers (vehicle_offline now k s) = fleetSubscribers s"
  "vehicleSharerConnections (vehicle_offline now k s) = vehicleSharerConnections s"
  "conns (vehicle_offline now k s) = conns s"
  "readyStateOf (vehicle_offline now k s) = readyStateOf s"
  by (simp_all add: vehicle_offline_def notify_eq Let_def updateVehicleLiveStatus_def getVehicle_def
        split: option.splits)

lemma close_vehicle_sharer_fields:
  "locations (storage (close_vehicle_sharer w now s)) = locations (storage s)"
  "fleets (storage (close_vehicle_sharer w now s)) = fleets (storage s)"
  "locationSubscribers (close_vehicle_sharer w now s) = locationSubscribers s"
  "sharerConnections (close_vehicle_sharer w now s) = sharerConnections s"
  "fleetSubscribers (close_vehicle_sharer w now s) = fleetSubscribers s"
  "conns (close_vehicle_sharer w now s) = conns s"
  "readyStateOf (close_vehicle_sharer w now s) = readyStateOf s"
  by (simp_all add: close_vehicle_sharer_def vehicle_offline_fields Let_def split: option.splits)

lemma sent_close_sharer:
  "truthy (sharingLocationId (conns s w)) = Some k \<Longrightarrow>
   sent (close_sharer w s) = sent s @
     (case Map_get (locationSubscribers s) k of
        None \<Rightarrow> []
      | Some subs \<Rightarrow> map (\<lambda>x. (x, M_stopped)) (filter (\<lambda>x. readyStateOf s x = OPEN) subs))"
  by (simp add: close_sharer_def notify_eq Let_def split: option.splits)

lemma sharerConnections_close_sharer:
  "truthy (sharingLocationId (conns s w)) = Some k \<Longrightarrow>
   sharerConnections (close_sharer w s) = Map_delete k (sharerConnections s)"
  by (simp add: close_sharer_def notify_eq Let_def)

lemma sent_vehicle_offline_prefix:
  "\<exists>extra. sent (vehicle_offline now k s) = sent s @ extra"
  by (simp add: vehicle_offline_def notify_eq Let_def split: option.splits)

lemma sent_close_vehicle_sharer_prefix:
  "\<exists>extra. sent (close_vehicle_sharer w now s) = sent s @ extra"
  using sent_vehicle_offline_prefix[of now _ s]
  by (auto simp add: close_vehicle_sharer_def Let_def split: option.splits)

lemma vehicle_offline_present:
  assumes "Map_get (vehicles (storage s)) k = Some v"
  shows "vehicles (storage (vehicle_offline now k s))
           = Map_set k (v\<lparr>v_isLive := False, v_lastUpdated := Some now\<rparr>) (vehicles (storage s))"
    and "sent (vehicle_offline now k s) = sent s @
           (case Map_get (fleetSubscribers s) (v_fleetId v) of
              None \<Rightarrow> []
            | Some subs \<Rightarrow>
                map (\<lambda>x. (x, M_vehicleStopped k)) (filter (\<lambda>x. readyStateOf s x = OPEN) subs))"
  using assms
  by (simp_all add: vehicle_offline_def notify_eq Let_def updateVehicleLiveStatus_def getVehicle_def
        split: option.splits)

text \<open>What each message handler does to the two publisher registries.\<close>

lemma publishers_on_subscribe:
  "sharerConnections (on_subscribe w now k s) = sharerConnections s"
  "vehicleSharerConnections (on_subscribe w now k s) = vehicleSharerConnections s"
  by (simp_all add: on_subscribe_def Let_def ws_send_def split: prod.splits option.splits)

lemma publishers_on_share:
  "sharerConnections (on_share w k s) = Map_set k w (sharerConnections s)"
  "vehicleSharerConnections (on_share w k s) = vehicleSharerConnections s"
  by (simp_all add: on_share_def)

lemma publishers_on_update:
  "sharerConnections (on_update w now k d s) = sharerConnections s"
  "vehicleSharerConnections (on_update w now k d s) = vehicleSharerConnections s"
  by (simp_all add: on_update_def Let_def notify_eq split: prod.splits option.splits)

lemma publishers_on_stop:
  "sharerConnections (on_stop w now k s) = Map_delete k (sharerConnections s)"
  "vehicleSharerConnections (on_stop w now k s) = vehicleSharerConnections s"
  by (simp_all add: on_stop_def Let_def notify_eq)

lemma publishers_on_subscribeFleet:
  "sharerConnections (on_subscribeFleet w now k s) = sharerConnections s"
  "vehicleSharerConnections (on_subscribeFleet w now k s) = vehicleSharerConnections s"
  by (simp_all add: on_subscribeFleet_def Let_def ws_send_def split: prod.splits)

lemma publishers_on_shareVehicle:
  "sharerConnections (on_shareVehicle w now k s) = sharerConnections s"
  "vehicleSharerConnections (on_shareVehicle w now k s) = Map_set k w (vehicleSharerConnections s)"
  by (simp_all add: on_shareVehicle_def Let_def)

lemma publishers_on_updateVehicle:
  "sharerConnections (on_updateVehicle w now k d s) = sharerConnections s"
  "vehicleSharerConnections (on_updateVehicle w now k d s) = vehicleSharerConnections s"
  by (simp_all add: on_updateVehicle_def Let_def notify_eq split: prod.splits option.splits)

lemma publishers_on_stopVehicle:
  "sharerConnections (on_stopVehicle w now k s) = sharerConnections s"
  "vehicleSharerConnections (on_stopVehicle w now k s) = Map_delete k (vehicleSharerConnections s)"
  by (simp_all add: on_stopVehicle_def Let_def vehicle_offline_fields)

lemmas publishers_simps =
  publishers_on_subscribe publishers_on_share publishers_on_update publishers_on_stop
  publishers_on_subscribeFleet publishers_on_shareVehicle publishers_on_updateVehicle
  publishers_on_stopVehicle

lemma distinct_publishers_on_message:
  assumes "distinct (map fst (sharerConnections s))"
    and "distinct (map fst (vehicleSharerConnections s))"
  shows "distinct (map fst (sharerConnections (on_message w now fr s)))"
    and "distinct (map fst (vehicleSharerConnections (on_message w now fr s)))"
  using assms
  by (simp_all add: on_message_def publishers_simps distinct_Map_set distinct_Map_delete
        split: frame.splits option.splits)

lemma distinct_publishers_transport_close:
  assumes "distinct (map fst (sharerConnections s))"
    and "distinct (map fst (vehicleSharerConnections s))"
  shows "distinct (map fst (sharerConnections (transport_close w now s)))"
    and "distinct (map fst (vehicleSharerConnections (transport_close w now s)))"
  using assms
  by (simp_all add: transport_close_def on_close_def close_vehicle_sharer_def
        close_fleet_subscriber_def close_sharer_def close_subscriber_def notify_eq Let_def
        vehicle_offline_fields distinct_Map_delete split: option.splits)

text \<open>Only the connection and close events change the ready state of a socket.\<close>

lemma readyStateOf_handlers:
  "readyStateOf (on_subscribe w now k s) = readyStateOf s"
  "readyStateOf (on_share w k s) = readyStateOf s"
  "readyStateOf (on_update w now k d s) = readyStateOf s"
  "readyStateOf (on_stop w now k s) = readyStateOf s"
  "readyStateOf (on_subscribeFleet w now k s) = readyStateOf s"
  "readyStateOf (on_shareVehicle w now k s) = readyStateOf s"
  "readyStateOf (on_updateVehicle w now k d s) = readyStateOf s"
  "readyStateOf (on_stopVehicle w now k s) = readyStateOf s"
  by (simp_all add: on_subscribe_def on_share_def on_update_def on_stop_def
        on_subscribeFleet_def on_shareVehicle_def on_updateVehicle_def on_stopVehicle_def
        vehicle_offline_fields notify_eq ws_send_def Let_def
        split: option.splits prod.splits)

lemma readyStateOf_on_message: "readyStateOf (on_message w now fr s) = readyStateOf s"
  by (simp add: on_message_def readyStateOf_handlers split: frame.splits option.splits)

lemma z_number_None_iff: "z_number v = None \<longleftrightarrow> (\<forall>n. v = Some (JNumber n) \<longrightarrow> n = NaN)"
  by (auto simp add: z_number_def split: option.splits json.splits)

section \<open>The scenario\<close>

lemmas storage_defs = createLocation_def createFleet_def createVehicle_def getVehiclesByFleet_def
  getFleet_def getLocation_def updateLocation_def updateVehicle_def updateVehicleLiveStatus_def
  getVehicle_def deleteLocation_def deleteVehicle_def
  Map_get_def Map_set_def Map_delete_def Map_has_def Map_values_def truthy_def
  new_Date_def new_Date_number_def fl_numeral toISOString_def VEHICLE_COLORS_def
  MemStorage_def

lemmas schema_defs = insertLocationSchema_def insertFleetSchema_def insertVehicleSchema_def
  locationUpdateSchema_def vehicleUpdateSchema_def z_number_def z_string_def
  z_string_optional_def z_boolean_optional_def z_expiresInMinutes_def

lemmas route_defs = post_api_locations_def post_api_fleets_def post_api_vehicles_def
  get_api_fleets_id_def get_api_vehicles_id_def json_ok_def json_error_def on_request_def
  Fleet_object_def Vehicle_object_def Location_object_def opt_prop_def rest_without_def

lemmas handler_defs = on_message_def guard_def envelope_def on_connection_def on_share_def
  on_subscribe_def on_shareVehicle_def on_subscribeFleet_def on_update_def on_updateVehicle_def
  add_subscriber_def Set_add_def ws_send_def new_conn_def notify_eq

lemmas close_defs = transport_close_def on_close_def close_subscriber_def close_sharer_def
  close_fleet_subscriber_def close_vehicle_sharer_def vehicle_offline_def remove_subscriber_def
  Set_delete_def

lemmas scenario_defs = scenario_created_def scenario_requests_def server_init_def
  loc1_def fl1_def buggy1_def buggy2_def scenario_store_def

lemma scenario_server_eq:
  "scenario_server =
     \<lparr>storage = scenario_store,
      locationSubscribers = [(''loc1'', [2])],
      sharerConnections = [(''loc1'', 1)],
      fleetSubscribers = [(''fl1'', [4])],
      vehicleSharerConnections = [(''v1'', 3)],
      conns = (\<lambda>w. new_conn)
        (1 := new_conn\<lparr>sharingLocationId := Some ''loc1''\<rparr>,
         2 := new_conn\<lparr>subscribedLocationId := Some ''loc1''\<rparr>,
         3 := new_conn\<lparr>sharingVehicleId := Some ''v1''\<rparr>,
         4 := new_conn\<lparr>subscribedFleetId := Some ''fl1''\<rparr>),
      readyStateOf = (\<lambda>w. CONNECTING)(1 := OPEN, 2 := OPEN, 3 := OPEN, 4 := OPEN),
      sent = [(2, M_location loc1), (4, M_vehicles [buggy1, buggy2])]\<rparr>"
  by (simp add: scenario_server_def scenario_defs storage_defs schema_defs route_defs
        handler_defs Let_def)

lemma scenario_created_reachable: "reachable scenario_created"
  by (simp add: scenario_created_def scenario_requests_def) (intro r_request r_init)

lemma scenario_server_reachable: "reachable scenario_server"
  unfolding scenario_server_def
  by (intro r_message r_connection scenario_created_reachable)
    (simp_all add: readyStateOf_on_message on_connection_def scenario_created_def
       scenario_requests_def on_request_def server_init_def)

lemma reshare_server_reachable: "reachable reshare_server"
  unfolding reshare_server_def
  by (intro r_message scenario_server_reachable)
    (simp_all add: readyStateOf_on_message scenario_server_eq)

section \<open>Publisher disconnect\<close>

lemma transport_close_solo:
  assumes h: "sharingLocationId (conns s w) = Some k \<and> k \<noteq> []"
  shows "locations (storage (transport_close w now s)) = locations (storage s)
      \<and> Map_get (sharerConnections (transport_close w now s)) k = None
      \<and> (\<forall>subs sub. Map_get (locationSubscribers s) k = Some subs
            \<and> sub \<in> set subs \<and> sub \<noteq> w \<and> readyStateOf s sub = OPEN \<longrightarrow>
            (sub, M_stopped) \<in> set (drop (length (sent s)) (sent (transport_close w now s))))"
proof -
  define s0 where "s0 = s\<lparr>readyStateOf := (readyStateOf s)(w := CLOSED)\<rparr>"
  define s1 where "s1 = close_subscriber w s0"
  define s2 where "s2 = close_sharer w s1"
  define s3 where "s3 = close_fleet_subscriber w s2"
  define s4 where "s4 = close_vehicle_sharer w now s3"
  have tc: "transport_close w now s = s4"
    by (simp add: transport_close_def on_close_def s0_def s1_def s2_def s3_def s4_def)
  have conns1: "conns s1 = conns s" by (simp add: s1_def s0_def close_subscriber_fields)
  have rs1: "readyStateOf s1 = (readyStateOf s)(w := CLOSED)"
    by (simp add: s1_def s0_def close_subscriber_fields)
  have st3: "storage s3 = storage s"
    by (simp add: s3_def s2_def s1_def s0_def close_fleet_subscriber_fields close_sharer_fields
          close_subscriber_fields)
  have sent1: "sent s1 = sent s" by (simp add: s1_def s0_def close_subscriber_fields)
  have sent3: "sent s3 = sent s2" by (simp add: s3_def close_fleet_subscriber_fields)
  obtain extra where sent4: "sent s4 = sent s3 @ extra"
    using sent_close_vehicle_sharer_prefix[of w now s3] by (auto simp add: s4_def)
  have t: "truthy (sharingLocationId (conns s1 w)) = Some k"
    using h by (simp add: conns1 truthy_def)
  have a: "locations (storage s4) = locations (storage s)"
    by (simp add: s4_def close_vehicle_sharer_fields st3)
  have "sharerConnections s4 = Map_delete k (sharerConnections s1)"
    by (simp add: s4_def s3_def s2_def close_vehicle_sharer_fields close_fleet_subscriber_fields
          sharerConnections_close_sharer[OF t])
  then have b: "Map_get (sharerConnections s4) k = None" by (simp add: Map_get_delete)
  have c: "(sub, M_stopped) \<in> set (drop (length (sent s)) (sent s4))"
    if p: "Map_get (locationSubscribers s) k = Some subs
            \<and> sub \<in> set subs \<and> sub \<noteq> w \<and> readyStateOf s sub = OPEN" for subs sub
  proof -
    have "\<exists>subs1. Map_get (locationSubscribers s1) k = Some subs1 \<and> sub \<in> set subs1"
    proof (cases "truthy (subscribedLocationId (conns s0 w))")
      case None
      with p show ?thesis by (simp add: s1_def close_subscriber_def s0_def)
    next
      case (Some k')
      have "locationSubscribers s1 = remove_subscriber k' w (locationSubscribers s)"
        using Some by (simp add: s1_def close_subscriber_def s0_def)
      with p remove_subscriber_keeps[of "locationSubscribers s" k subs sub w k']
      show ?thesis by simp
    qed
    then obtain subs1 where s1k: "Map_get (locationSubscribers s1) k = Some subs1"
      and mem: "sub \<in> set subs1" by blast
    have "sent s2 = sent s @ map (\<lambda>x. (x, M_stopped)) (filter (\<lambda>x. readyStateOf s1 x = OPEN) subs1)"
      using sent_close_sharer[OF t] s1k by (simp add: s2_def sent1)
    then have "drop (length (sent s)) (sent s4)
        = map (\<lambda>x. (x, M_stopped)) (filter (\<lambda>x. readyStateOf s1 x = OPEN) subs1) @ extra"
      by (simp add: sent4 sent3)
    moreover have "readyStateOf s1 sub = OPEN" using p by (simp add: rs1)
    ultimately show ?thesis using mem by auto
  qed
  from a b c show ?thesis unfolding tc by blast
qed

lemma transport_close_vehicle:
  assumes h: "sharingVehicleId (conns s w) = Some vid \<and> vid \<noteq> []
      \<and> Map_get (vehicles (storage s)) vid = Some v"
  shows "Map_get (vehicles (storage (transport_close w now s))) vid
        = Some (v\<lparr>v_isLive := False, v_lastUpdated := Some now\<rparr>)
      \<and> Map_get (vehicleSharerConnections (transport_close w now s)) vid = None
      \<and> (\<forall>subs sub. Map_get (fleetSubscribers s) (v_fleetId v) = Some subs
            \<and> sub \<in> set subs \<and> sub \<noteq> w \<and> readyStateOf s sub = OPEN \<longrightarrow>
            (sub, M_vehicleStopped vid)
              \<in> set (drop (length (sent s)) (sent (transport_close w now s))))"
proof -
  define s0 where "s0 = s\<lparr>readyStateOf := (readyStateOf s)(w := CLOSED)\<rparr>"
  define s1 where "s1 = close_subscriber w s0"
  define s2 where "s2 = close_sharer w s1"
  define s3 where "s3 = close_fleet_subscriber w s2"
  define s4 where "s4 = close_vehicle_sharer w now s3"
  have tc: "transport_close w now s = s4"
    by (simp add: transport_close_def on_close_def s0_def s1_def s2_def s3_def s4_def)
  have conns1: "conns s1 = conns s" by (simp add: s1_def s0_def close_subscriber_fields)
  have conns3: "conns s3 = conns s"
    by (simp add: s3_def s2_def close_fleet_subscriber_fields close_sharer_fields conns1)
  have rs3: "readyStateOf s3 = (readyStateOf s)(w := CLOSED)"
    by (simp add: s3_def s2_def s1_def s0_def close_fleet_subscriber_fields close_sharer_fields
          close_subscriber_fields)
  have st3: "storage s3 = storage s"
    by (simp add: s3_def s2_def s1_def s0_def close_fleet_subscriber_fields close_sharer_fields
          close_subscriber_fields)
  have sent1: "sent s1 = sent s" by (simp add: s1_def s0_def close_subscriber_fields)
  have sent3: "sent s3 = sent s2" by (simp add: s3_def close_fleet_subscriber_fields)
  have fs2: "fleetSubscribers s2 = fleetSubscribers s"
    by (simp add: s2_def s1_def s0_def close_sharer_fields close_subscriber_fields)
  have t: "truthy (sharingVehicleId (conns s3 w)) = Some vid"
    using h by (simp add: conns3 truthy_def)
  have present: "Map_get (vehicles (storage s3)) vid = Some v" using h by (simp add: st3)
  have s4eq: "s4 = (vehicle_offline now vid s3)
      \<lparr>vehicleSharerConnections :=
         Map_delete vid (vehicleSharerConnections (vehicle_offline now vid s3))\<rparr>"
    using t by (simp add: s4_def close_vehicle_sharer_def Let_def)
  have v4: "vehicles (storage s4)
      = Map_set vid (v\<lparr>v_isLive := False, v_lastUpdated := Some now\<rparr>) (vehicles (storage s))"
    using vehicle_offline_present(1)[OF present, of now] by (simp add: s4eq st3)
  have sent4: "sent s4 = sent s3 @
         (case Map_get (fleetSubscribers s3) (v_fleetId v) of
            None \<Rightarrow> []
          | Some subs \<Rightarrow>
              map (\<lambda>x. (x, M_vehicleStopped vid)) (filter (\<lambda>x. readyStateOf s3 x = OPEN) subs))"
    using vehicle_offline_present(2)[OF present, of now] by (simp add: s4eq)
  obtain pre where sent3': "sent s3 = sent s @ pre"
  proof (cases "truthy (sharingLocationId (conns s1 w))")
    case None
    then have "sent s2 = sent s" by (simp add: s2_def close_sharer_def sent1)
    then show ?thesis using that[of "[]"] by (simp add: sent3)
  next
    case (Some k')
    from sent_close_sharer[OF Some] show ?thesis
      using that by (simp add: sent3 s2_def sent1)
  qed
  have a: "Map_get (vehicles (storage s4)) vid
            = Some (v\<lparr>v_isLive := False, v_lastUpdated := Some now\<rparr>)"
    by (simp add: v4 Map_get_set)
  have b: "Map_get (vehicleSharerConnections s4) vid = None"
    by (subst s4eq) (simp add: Map_get_delete)
  have c: "(sub, M_vehicleStopped vid) \<in> set (drop (length (sent s)) (sent s4))"
    if p: "Map_get (fleetSubscribers s) (v_fleetId v) = Some subs
            \<and> sub \<in> set subs \<and> sub \<noteq> w \<and> readyStateOf s sub = OPEN" for subs sub
  proof -
    have "\<exists>subs1. Map_get (fleetSubscribers s3) (v_fleetId v) = Some subs1 \<and> sub \<in> set subs1"
    proof (cases "truthy (subscribedFleetId (conns s2 w))")
      case None
      with p show ?thesis by (simp add: s3_def close_fleet_subscriber_def fs2)
    next
      case (Some k')
      have "fleetSubscribers s3 = remove_subscriber k' w (fleetSubscribers s)"
        using Some by (simp add: s3_def close_fleet_subscriber_def fs2)
      with p remove_subscriber_keeps[of "fleetSubscribers s" "v_fleetId v" subs sub w k']
      show ?thesis by simp
    qed
    then obtain subs1 where s3k: "Map_get (fleetSubscribers s3) (v_fleetId v) = Some subs1"
      and mem: "sub \<in> set subs1" by blast
    have "drop (length (sent s)) (sent s4)
        = pre @ map (\<lambda>x. (x, M_vehicleStopped vid)) (filter (\<lambda>x. readyStateOf s3 x = OPEN) subs1)"
      by (simp add: sent4 sent3' s3k)
    moreover have "readyStateOf s3 sub = OPEN" using p by (simp add: rs3)
    ultimately show ?thesis using mem by auto
  qed
  from a b c show ?thesis unfolding tc by blast
qed

text \<open>
  Claim C1, as the code has it. The close handler works on the key the socket announced
  last, the one its handlers hold in \<^verbatim>\<open>sharingLocationId\<close> or \<^verbatim>\<open>sharingVehicleId\<close>. When the
  transport of a socket closes while the socket is the registered publisher of the solo
  location \<open>k\<close> it announced last, the close handler removes the publisher entry of \<open>k\<close> and
  sends \<^verbatim>\<open>stopped\<close> to every other socket subscribed to \<open>k\<close> that is open; it leaves the
  location records of the store as they are, so the live flag of the location keeps its
  value. When the socket is the registered publisher of the vehicle it announced last and
  the record of that vehicle is in the store, the handler sets the live flag of the record
  to false (and stamps its last update), removes the publisher entry, and sends
  \<^verbatim>\<open>vehicleStopped\<close> to every other open socket subscribed to the vehicle's fleet. The sends
  are those made during the handler: the part of the log after what had been sent before.
\<close>

theorem publisher_close_cleanup:
  "(Map_get (sharerConnections s) k = Some w
      \<and> sharingLocationId (conns s w) = Some k \<and> k \<noteq> [] \<longrightarrow>
      locations (storage (transport_close w now s)) = locations (storage s)
      \<and> Map_get (sharerConnections (transport_close w now s)) k = None
      \<and> (\<forall>subs sub. Map_get (locationSubscribers s) k = Some subs
            \<and> sub \<in> set subs \<and> sub \<noteq> w \<and> readyStateOf s sub = OPEN \<longrightarrow>
            (sub, M_stopped) \<in> set (drop (length (sent s)) (sent (transport_close w now s)))))
   \<and>
   (Map_get (vehicleSharerConnections s) vid = Some w
      \<and> sharingVehicleId (conns s w) = Some vid \<and> vid \<noteq> []
      \<and> Map_get (vehicles (storage s)) vid = Some v \<longrightarrow>
      Map_get (vehicles (storage (transport_close w now s))) vid
        = Some (v\<lparr>v_isLive := False, v_lastUpdated := Some now\<rparr>)
      \<and> Map_get (vehicleSharerConnections (transport_close w now s)) vid = None
      \<and> (\<forall>subs sub. Map_get (fleetSubscribers s) (v_fleetId v) = Some subs
            \<and> sub \<in> set subs \<and> sub \<noteq> w \<and> readyStateOf s sub = OPEN \<longrightarrow>
            (sub, M_vehicleStopped vid)
              \<in> set (drop (length (sent s)) (sent (transport_close w now s)))))"
  using transport_close_solo[of s w k now] transport_close_vehicle[of s w vid v now]
  by blast

text \<open>
  In the scenario: socket 1 is registered for \<^verbatim>\<open>loc1\<close>, the key it announced, and socket 2
  views it; socket 3 is registered for vehicle \<^verbatim>\<open>v1\<close>, the key it announced, and socket 4
  views its fleet. Both transports close at time 20.
\<close>

theorem publisher_close_cleanup_witness:
  "Map_get (sharerConnections scenario_server) ''loc1'' = Some 1
   \<and> sharingLocationId (conns scenario_server 1) = Some ''loc1''
   \<and> Map_get (locationSubscribers scenario_server) ''loc1'' = Some [2]
   \<and> readyStateOf scenario_server 2 = OPEN
   \<and> Map_get (sharerConnections (transport_close 1 20 scenario_server)) ''loc1'' = None
   \<and> (2, M_stopped)
        \<in> set (drop (length (sent scenario_server)) (sent (transport_close 1 20 scenario_server)))
   \<and> Map_get (vehicleSharerConnections scenario_server) ''v1'' = Some 3
   \<and> sharingVehicleId (conns scenario_server 3) = Some ''v1''
   \<and> Map_get (vehicles (storage scenario_server)) ''v1'' = Some buggy1
   \<and> Map_get (fleetSubscribers scenario_server) (v_fleetId buggy1) = Some [4]
   \<and> readyStateOf scenario_server 4 = OPEN
   \<and> Map_get (vehicles (storage (transport_close 3 20 scenario_server))) ''v1''
        = Some (buggy1\<lparr>v_isLive := False, v_lastUpdated := Some 20\<rparr>)
   \<and> (4, M_vehicleStopped ''v1'')
        \<in> set (drop (length (sent scenario_server)) (sent (transport_close 3 20 scenario_server)))"
proof -
  have h1: "Map_get (sharerConnections scenario_server) ''loc1'' = Some 1
            \<and> sharingLocationId (conns scenario_server 1) = Some ''loc1'' \<and> ''loc1'' \<noteq> []"
    by (simp add: scenario_server_eq new_conn_def Map_get_def)
  have h2: "Map_get (locationSubscribers scenario_server) ''loc1'' = Some [2]
            \<and> 2 \<in> set [2::nat] \<and> (2::nat) \<noteq> 1 \<and> readyStateOf scenario_server 2 = OPEN"
    by (simp add: scenario_server_eq Map_get_def)
  have h3: "Map_get (vehicleSharerConnections scenario_server) ''v1'' = Some 3
            \<and> sharingVehicleId (conns scenario_server 3) = Some ''v1'' \<and> ''v1'' \<noteq> []
            \<and> Map_get (vehicles (storage scenario_server)) ''v1'' = Some buggy1"
    by (simp add: scenario_server_eq new_conn_def scenario_store_def Map_get_def)
  have h4: "Map_get (fleetSubscribers scenario_server) (v_fleetId buggy1) = Some [4]
            \<and> 4 \<in> set [4::nat] \<and> (4::nat) \<noteq> 3 \<and> readyStateOf scenario_server 4 = OPEN"
    by (simp add: scenario_server_eq Map_get_def buggy1_def)
  from publisher_close_cleanup[of scenario_server "''loc1''" 1 20 "''v1''" buggy1] h1 h2
  have c1: "Map_get (sharerConnections (transport_close 1 20 scenario_server)) ''loc1'' = None
     \<and> (2, M_stopped)
        \<in> set (drop (length (sent scenario_server)) (sent (transport_close 1 20 scenario_server)))"
    by blast
  from publisher_close_cleanup[of scenario_server "''loc1''" 3 20 "''v1''" buggy1] h3 h4
  have c2: "Map_get (vehicles (storage (transport_close 3 20 scenario_server))) ''v1''
        = Some (buggy1\<lparr>v_isLive := False, v_lastUpdated := Some 20\<rparr>)
     \<and> (4, M_vehicleStopped ''v1'')
        \<in> set (drop (length (sent scenario_server)) (sent (transport_close 3 20 scenario_server)))"
    by blast
  from h1 h2 h3 h4 c1 c2 show ?thesis by blast
qed

text \<open>
  Claim C1 as stated fails in two ways. For the solo publisher the store is not written:
  in the scenario socket 1 is the registered publisher of \<^verbatim>\<open>loc1\<close>, whose record is live,
  and after its transport closes the record is still in the store with its live flag true.
  And a registration under a key announced earlier is not cleaned up: after socket 1 has
  also announced \<^verbatim>\<open>loc2\<close> and socket 3 has also announced \<^verbatim>\<open>v2\<close>, socket 1 is still the
  registered publisher of \<^verbatim>\<open>loc1\<close> and socket 3 of \<^verbatim>\<open>v1\<close>; when the transport of socket 1
  closes, the entry of \<^verbatim>\<open>loc1\<close> stays and nothing is sent to its open viewer, socket 2; when
  the transport of socket 3 closes, the entry of \<^verbatim>\<open>v1\<close> stays, its record keeps the live
  flag true, and the open fleet viewer, socket 4, is not told that \<^verbatim>\<open>v1\<close> stopped.
\<close>

theorem publisher_close_counterexample:
  "reachable scenario_server
   \<and> readyStateOf scenario_server 1 = OPEN
   \<and> sharingLocationId (conns scenario_server 1) = Some ''loc1''
   \<and> Map_get (sharerConnections scenario_server) ''loc1'' = Some 1
   \<and> Map_get (locations (storage (transport_close 1 20 scenario_server))) ''loc1'' = Some loc1
   \<and> l_isLive loc1 = Some True
   \<and> reachable reshare_server
   \<and> readyStateOf reshare_server 1 = OPEN
   \<and> Map_get (sharerConnections reshare_server) ''loc1'' = Some 1
   \<and> Map_get (locationSubscribers reshare_server) ''loc1'' = Some [2]
   \<and> readyStateOf reshare_server 2 = OPEN
   \<and> Map_get (sharerConnections (transport_close 1 20 reshare_server)) ''loc1'' = Some 1
   \<and> sent (transport_close 1 20 reshare_server) = sent reshare_server
   \<and> readyStateOf reshare_server 3 = OPEN
   \<and> Map_get (vehicleSharerConnections reshare_server) ''v1'' = Some 3
   \<and> Map_get (vehicles (storage reshare_server)) ''v1'' = Some buggy1
   \<and> Map_get (fleetSubscribers reshare_server) (v_fleetId buggy1) = Some [4]
   \<and> readyStateOf reshare_server 4 = OPEN
   \<and> Map_get (vehicleSharerConnections (transport_close 3 20 reshare_server)) ''v1'' = Some 3
   \<and> Map_get (vehicles (storage (transport_close 3 20 reshare_server))) ''v1'' = Some buggy1
   \<and> v_isLive buggy1
   \<and> sent (transport_close 3 20 reshare_server)
       = sent reshare_server @ [(4, M_vehicleStopped ''v2'')]"
proof -
  have a: "readyStateOf scenario_server 1 = OPEN
   \<and> sharingLocationId (conns scenario_server 1) = Some ''loc1''
   \<and> Map_get (sharerConnections scenario_server) ''loc1'' = Some 1
   \<and> Map_get (locations (storage (transport_close 1 20 scenario_server))) ''loc1'' = Some loc1
   \<and> l_isLive loc1 = Some True"
    by (simp add: scenario_server_eq close_defs storage_defs new_conn_def notify_eq
          scenario_store_def loc1_def)
  have b: "readyStateOf reshare_server 1 = OPEN
   \<and> Map_get (sharerConnections reshare_server) ''loc1'' = Some 1
   \<and> Map_get (locationSubscribers reshare_server) ''loc1'' = Some [2]
   \<and> readyStateOf reshare_server 2 = OPEN
   \<and> Map_get (sharerConnections (transport_close 1 20 reshare_server)) ''loc1'' = Some 1
   \<and> sent (transport_close 1 20 reshare_server) = sent reshare_server"
    by (simp add: reshare_server_def scenario_server_eq handler_defs close_defs storage_defs
          scenario_store_def buggy1_def buggy2_def Let_def)
  have c: "readyStateOf reshare_server 3 = OPEN
   \<and> Map_get (vehicleSharerConnections reshare_server) ''v1'' = Some 3
   \<and> Map_get (vehicles (storage reshare_server)) ''v1'' = Some buggy1
   \<and> Map_get (fleetSubscribers reshare_server) (v_fleetId buggy1) = Some [4]
   \<and> readyStateOf reshare_server 4 = OPEN
   \<and> Map_get (vehicleSharerConnections (transport_close 3 20 reshare_server)) ''v1'' = Some 3
   \<and> Map_get (vehicles (storage (transport_close 3 20 reshare_server))) ''v1'' = Some buggy1
   \<and> v_isLive buggy1
   \<and> sent (transport_close 3 20 reshare_server)
       = sent reshare_server @ [(4, M_vehicleStopped ''v2'')]"
    by (simp add: reshare_server_def scenario_server_eq handler_defs close_defs storage_defs
          scenario_store_def buggy1_def buggy2_def Let_def)
  from scenario_server_reachable reshare_server_reachable a b c show ?thesis by blast
qed

section \<open>Expiry\<close>

text \<open>
  Claim C2. For a location whose expiry timestamp is before the time of the read, and for a
  fleet whose expiry timestamp is before the time of the read, the read returns not-found
  and removes the record from the store; a read of the same key after that, at any time,
  returns not-found again and leaves the store as it is.
\<close>

theorem get_after_expiry:
  "(Map_get (locations st) ident = Some location \<and> l_expiresAt location = Some e \<and> e < t \<longrightarrow>
      fst (getLocation t ident st) = None
      \<and> Map_get (locations (snd (getLocation t ident st))) ident = None
      \<and> (\<forall>t'. getLocation t' ident (snd (getLocation t ident st))
              = (None, snd (getLocation t ident st))))
   \<and>
   (Map_get (fleets st) ident = Some fleet \<and> f_expiresAt fleet < t \<longrightarrow>
      fst (getFleet t ident st) = None
      \<and> Map_get (fleets (snd (getFleet t ident st))) ident = None
      \<and> (\<forall>t'. getFleet t' ident (snd (getFleet t ident st))
              = (None, snd (getFleet t ident st))))"
proof (intro conjI impI)
  assume h: "Map_get (locations st) ident = Some location \<and> l_expiresAt location = Some e \<and> e < t"
  then have eq: "getLocation t ident st = (None, st\<lparr>locations := Map_delete ident (locations st)\<rparr>)"
    by (simp add: getLocation_expired)
  show "fst (getLocation t ident st) = None" by (simp add: eq)
  show gone: "Map_get (locations (snd (getLocation t ident st))) ident = None"
    by (simp add: eq Map_get_delete)
  show "\<forall>t'. getLocation t' ident (snd (getLocation t ident st))
             = (None, snd (getLocation t ident st))"
    using gone by (simp add: getLocation_absent)
next
  assume h: "Map_get (fleets st) ident = Some fleet \<and> f_expiresAt fleet < t"
  then have eq: "getFleet t ident st =
    (None, st\<lparr>fleets := Map_delete ident (fleets st),
              vehicles := delete_fleet_vehicles ident (vehicles st) (vehicles st)\<rparr>)"
    by (simp add: getFleet_expired)
  show "fst (getFleet t ident st) = None" by (simp add: eq)
  show gone: "Map_get (fleets (snd (getFleet t ident st))) ident = None"
    by (simp add: eq Map_get_delete)
  show "\<forall>t'. getFleet t' ident (snd (getFleet t ident st))
             = (None, snd (getFleet t ident st))"
    using gone by (simp add: getFleet_absent)
qed

text \<open>
  In the store of the scenario the location expires at 900000 and the fleet at 86400000;
  each is read one millisecond later, then again.
\<close>

theorem get_after_expiry_witness:
  "Map_get (locations scenario_store) ''loc1'' = Some loc1
   \<and> l_expiresAt loc1 = Some 900000 \<and> (900000::int) < 900001
   \<and> fst (getLocation 900001 ''loc1'' scenario_store) = None
   \<and> Map_get (locations (snd (getLocation 900001 ''loc1'' scenario_store))) ''loc1'' = None
   \<and> fst (getLocation 5 ''loc1'' (snd (getLocation 900001 ''loc1'' scenario_store))) = None
   \<and> Map_get (fleets scenario_store) ''fl1'' = Some fl1
   \<and> f_expiresAt fl1 < 86400001
   \<and> fst (getFleet 86400001 ''fl1'' scenario_store) = None
   \<and> Map_get (fleets (snd (getFleet 86400001 ''fl1'' scenario_store))) ''fl1'' = None
   \<and> fst (getFleet 5 ''fl1'' (snd (getFleet 86400001 ''fl1'' scenario_store))) = None"
proof -
  have h1: "Map_get (locations scenario_store) ''loc1'' = Some loc1
            \<and> l_expiresAt loc1 = Some 900000 \<and> (900000::int) < 900001"
    by (simp add: scenario_store_def Map_get_def loc1_def)
  have h2: "Map_get (fleets scenario_store) ''fl1'' = Some fl1 \<and> f_expiresAt fl1 < 86400001"
    by (simp add: scenario_store_def Map_get_def fl1_def)
  from get_after_expiry[of scenario_store "''loc1''" loc1 900000 900001 fl1] h1
  have c1: "fst (getLocation 900001 ''loc1'' scenario_store) = None
   \<and> Map_get (locations (snd (getLocation 900001 ''loc1'' scenario_store))) ''loc1'' = None
   \<and> fst (getLocation 5 ''loc1'' (snd (getLocation 900001 ''loc1'' scenario_store))) = None"
    by simp
  from get_after_expiry[of scenario_store "''fl1''" loc1 900000 86400001 fl1] h2
  have c2: "fst (getFleet 86400001 ''fl1'' scenario_store) = None
   \<and> Map_get (fleets (snd (getFleet 86400001 ''fl1'' scenario_store))) ''fl1'' = None
   \<and> fst (getFleet 5 ''fl1'' (snd (getFleet 86400001 ''fl1'' scenario_store))) = None"
    by simp
  from h1 h2 c1 c2 show ?thesis by blast
qed

text \<open>
  Claim C3, as the code has it. The store has no operation that deletes a fleet; a fleet
  leaves the store when a read of it (\<^verbatim>\<open>getFleet\<close>, and so \<^verbatim>\<open>getVehiclesByFleet\<close>) finds its
  expiry timestamp passed. For a fleet whose expiry timestamp is before the time of the
  read, \<^verbatim>\<open>getVehiclesByFleet\<close> returns the empty list and leaves the store \<^verbatim>\<open>getFleet\<close>
  leaves; in that store \<^verbatim>\<open>getVehicle\<close> returns not-found for every vehicle that belonged to
  the fleet, and \<^verbatim>\<open>getVehiclesByFleet\<close> returns the empty list at any time.
\<close>

theorem expired_fleet_purge:
  assumes "Map_get (fleets st) fid = Some fleet" and "f_expiresAt fleet < now"
  shows "getVehiclesByFleet now fid st = ([], snd (getFleet now fid st))
         \<and> fst (getFleet now fid st) = None
         \<and> (\<forall>vid v. Map_get (vehicles st) vid = Some v \<and> v_fleetId v = fid \<longrightarrow>
               getVehicle vid (snd (getFleet now fid st)) = None)
         \<and> (\<forall>t. fst (getVehiclesByFleet t fid (snd (getFleet now fid st))) = [])"
proof -
  let ?st' = "st\<lparr>fleets := Map_delete fid (fleets st),
                 vehicles := delete_fleet_vehicles fid (vehicles st) (vehicles st)\<rparr>"
  have g: "getFleet now fid st = (None, ?st')"
    using assms by (rule getFleet_expired)
  have a: "getVehiclesByFleet now fid st = ([], snd (getFleet now fid st))"
    by (simp add: getVehiclesByFleet_def g)
  have b: "\<forall>vid v. Map_get (vehicles st) vid = Some v \<and> v_fleetId v = fid \<longrightarrow>
               getVehicle vid (snd (getFleet now fid st)) = None"
  proof (intro allI impI)
    fix vid v assume h: "Map_get (vehicles st) vid = Some v \<and> v_fleetId v = fid"
    then have "(vid, v) \<in> set (vehicles st)"
      by (simp add: Map_get_def map_of_SomeD)
    with h show "getVehicle vid (snd (getFleet now fid st)) = None"
      by (simp add: g getVehicle_def delete_fleet_vehicles_member)
  qed
  have "Map_get (fleets ?st') fid = None" by (simp add: Map_get_delete)
  then have c: "\<forall>t. fst (getVehiclesByFleet t fid (snd (getFleet now fid st))) = []"
    by (simp add: g getVehiclesByFleet_def getFleet_absent)
  from a b c g show ?thesis by simp
qed

text \<open>The fleet of the scenario, read one millisecond after its expiry.\<close>

theorem expired_fleet_purge_witness:
  "Map_get (fleets scenario_store) ''fl1'' = Some fl1
   \<and> f_expiresAt fl1 < 86400001
   \<and> Map_get (vehicles scenario_store) ''v1'' = Some buggy1 \<and> v_fleetId buggy1 = ''fl1''
   \<and> fst (getVehiclesByFleet 86400001 ''fl1'' scenario_store) = []
   \<and> getVehicle ''v1'' (snd (getFleet 86400001 ''fl1'' scenario_store)) = None
   \<and> fst (getVehiclesByFleet 5 ''fl1'' (snd (getFleet 86400001 ''fl1'' scenario_store))) = []"
proof -
  have h1: "Map_get (fleets scenario_store) ''fl1'' = Some fl1"
    by (simp add: scenario_store_def Map_get_def)
  have h2: "f_expiresAt fl1 < 86400001" by (simp add: fl1_def)
  have h3: "Map_get (vehicles scenario_store) ''v1'' = Some buggy1 \<and> v_fleetId buggy1 = ''fl1''"
    by (simp add: scenario_store_def Map_get_def buggy1_def)
  from expired_fleet_purge[OF h1 h2] h3
  have "fst (getVehiclesByFleet 86400001 ''fl1'' scenario_store) = []
   \<and> getVehicle ''v1'' (snd (getFleet 86400001 ''fl1'' scenario_store)) = None
   \<and> fst (getVehiclesByFleet 5 ''fl1'' (snd (getFleet 86400001 ''fl1'' scenario_store))) = []"
    by simp
  with h1 h2 h3 show ?thesis by blast
qed

text \<open>
  Claim C3 as stated fails: \<^verbatim>\<open>getVehicle\<close> does not look at the fleet. In the store of the
  scenario the fleet expires at 86400000; at 86400001, before any read of the fleet, the
  vehicle \<^verbatim>\<open>v1\<close> of the fleet is still returned, also through its route.
\<close>

theorem getVehicle_after_expiry_counterexample:
  "reachable scenario_server
   \<and> storage scenario_server = scenario_store
   \<and> Map_get (fleets scenario_store) ''fl1'' = Some fl1
   \<and> f_expiresAt fl1 < 86400001
   \<and> v_fleetId buggy1 = ''fl1''
   \<and> getVehicle ''v1'' scenario_store = Some buggy1
   \<and> status (fst (route 86400001 (GET_vehicles_id ''v1'') scenario_store)) = 200"
proof -
  have "storage scenario_server = scenario_store
   \<and> Map_get (fleets scenario_store) ''fl1'' = Some fl1
   \<and> f_expiresAt fl1 < 86400001
   \<and> v_fleetId buggy1 = ''fl1''
   \<and> getVehicle ''v1'' scenario_store = Some buggy1
   \<and> status (fst (route 86400001 (GET_vehicles_id ''v1'') scenario_store)) = 200"
    by (simp add: scenario_server_eq scenario_store_def Map_get_def getVehicle_def fl1_def
          buggy1_def get_api_vehicles_id_def json_ok_def)
  with scenario_server_reachable show ?thesis by simp
qed

section \<open>Validation and sequencing of publisher updates\<close>

text \<open>
  Claim C4, as the code has it. The payload of an \<^verbatim>\<open>update\<close> or \<^verbatim>\<open>updateVehicle\<close>
  message is parsed by \<^verbatim>\<open>locationUpdateSchema\<close> or \<^verbatim>\<open>vehicleUpdateSchema\<close>, which ask
  for an object whose latitude and longitude are numbers other than NaN. A message whose
  payload fails the schema leaves the whole server state as it was: the store, the log of
  sends, and the ready state of every socket. A payload that is not an object fails, and so
  does an object whose latitude or longitude is absent, not a number, or NaN.
\<close>

theorem invalid_update_dropped:
  "(m_type m = ''update'' \<and> locationUpdateSchema (m_data m) = None \<longrightarrow>
      on_message w now (Envelope m) s = s)
   \<and>
   (m_type m = ''updateVehicle'' \<and> vehicleUpdateSchema (m_data m) = None \<longrightarrow>
      on_message w now (Envelope m) s = s)
   \<and>
   (\<forall>props.
      (\<forall>n. map_of props ''latitude'' = Some (JNumber n) \<longrightarrow> n = NaN)
      \<or> (\<forall>n. map_of props ''longitude'' = Some (JNumber n) \<longrightarrow> n = NaN) \<longrightarrow>
      locationUpdateSchema (Some (JObject props)) = None
      \<and> vehicleUpdateSchema (Some (JObject props)) = None)
   \<and>
   (\<forall>d. (\<forall>props. d \<noteq> Some (JObject props)) \<longrightarrow>
      locationUpdateSchema d = None \<and> vehicleUpdateSchema d = None)"
proof (intro conjI impI allI)
  assume "m_type m = ''update'' \<and> locationUpdateSchema (m_data m) = None"
  then show "on_message w now (Envelope m) s = s"
    by (simp add: on_message_def guard_def on_update_def split: option.splits)
next
  assume "m_type m = ''updateVehicle'' \<and> vehicleUpdateSchema (m_data m) = None"
  then show "on_message w now (Envelope m) s = s"
    by (simp add: on_message_def guard_def on_updateVehicle_def split: option.splits)
next
  fix props
  assume h: "(\<forall>n. map_of props ''latitude'' = Some (JNumber n) \<longrightarrow> n = NaN)
      \<or> (\<forall>n. map_of props ''longitude'' = Some (JNumber n) \<longrightarrow> n = NaN)"
  then have z: "z_number (map_of props ''latitude'') = None
            \<or> z_number (map_of props ''longitude'') = None"
    by (simp add: z_number_None_iff)
  from z show "locationUpdateSchema (Some (JObject props)) = None"
    by (auto simp add: locationUpdateSchema_def split: option.splits)
  from z show "vehicleUpdateSchema (Some (JObject props)) = None"
    by (auto simp add: vehicleUpdateSchema_def split: option.splits)
next
  fix d :: "json option"
  assume h: "\<forall>props. d \<noteq> Some (JObject props)"
  then show "locationUpdateSchema d = None"
    by (auto simp add: locationUpdateSchema_def split: option.splits json.splits)
  from h show "vehicleUpdateSchema d = None"
    by (auto simp add: vehicleUpdateSchema_def split: option.splits json.splits)
qed

text \<open>
  In the scenario socket 1, the publisher of \<^verbatim>\<open>loc1\<close>, sends a latitude that is a string,
  and socket 3, the publisher of \<^verbatim>\<open>v1\<close>, sends a latitude that is NaN.
\<close>

theorem invalid_update_dropped_witness:
  "locationUpdateSchema
      (Some (JObject [(''latitude'', JString ''40''), (''longitude'', JNumber (Finite 0))])) = None
   \<and> on_message 1 20
        (Envelope ((envelope ''update'')
           \<lparr>m_data := Some (JObject [(''latitude'', JString ''40''),
                                     (''longitude'', JNumber (Finite 0))])\<rparr>))
        scenario_server = scenario_server
   \<and> vehicleUpdateSchema
        (Some (JObject [(''latitude'', JNumber NaN), (''longitude'', JNumber (Finite 0))])) = None
   \<and> on_message 3 20
        (Envelope ((envelope ''updateVehicle'')
           \<lparr>m_data := Some (JObject [(''latitude'', JNumber NaN),
                                     (''longitude'', JNumber (Finite 0))])\<rparr>))
        scenario_server = scenario_server
   \<and> locationUpdateSchema (Some (JArray [])) = None
   \<and> vehicleUpdateSchema None = None"
proof -
  let ?m1 = "(envelope ''update'')
           \<lparr>m_data := Some (JObject [(''latitude'', JString ''40''),
                                     (''longitude'', JNumber (Finite 0))])\<rparr>"
  let ?m2 = "(envelope ''updateVehicle'')
           \<lparr>m_data := Some (JObject [(''latitude'', JNumber NaN),
                                     (''longitude'', JNumber (Finite 0))])\<rparr>"
  have p1: "locationUpdateSchema (m_data ?m1) = None"
    by (simp add: envelope_def schema_defs)
  have p2: "vehicleUpdateSchema (m_data ?m2) = None"
    by (simp add: envelope_def schema_defs)
  have t1: "m_type ?m1 = ''update''" by (simp add: envelope_def)
  have t2: "m_type ?m2 = ''updateVehicle''" by (simp add: envelope_def)
  from invalid_update_dropped[of ?m1 1 20 scenario_server] t1 p1
  have c1: "on_message 1 20 (Envelope ?m1) scenario_server = scenario_server" by blast
  from invalid_update_dropped[of ?m2 3 20 scenario_server] t2 p2
  have c2: "on_message 3 20 (Envelope ?m2) scenario_server = scenario_server" by blast
  have c3: "locationUpdateSchema (Some (JArray [])) = None \<and> vehicleUpdateSchema None = None"
    by (simp add: schema_defs)
  from p1 p2 c1 c2 c3 show ?thesis by (simp add: envelope_def)
qed

text \<open>
  Claim C4 as stated fails on an infinite coordinate. \<^verbatim>\<open>JSON.parse\<close> reads \<^verbatim>\<open>1e999\<close> as
  Infinity, a number that is not NaN, so the schema accepts it: sent by socket 1 of the
  scenario at time 20, the update is written to the store and sent to the viewer.
\<close>

theorem infinite_update_accepted_counterexample:
  "reachable scenario_server
   \<and> readyStateOf scenario_server 1 = OPEN
   \<and> sharingLocationId (conns scenario_server 1) = Some ''loc1''
   \<and> locationUpdateSchema (m_data infinite_update)
        = Some \<lparr>lu_latitude = PosInfinity, lu_longitude = Finite 0\<rparr>
   \<and> Map_get (locations (storage (on_message 1 20 (Envelope infinite_update) scenario_server)))
        ''loc1''
        = Some (loc1\<lparr>l_latitude := PosInfinity, l_longitude := Finite 0,
                      l_lastUpdated := Some 20\<rparr>)
   \<and> sent (on_message 1 20 (Envelope infinite_update) scenario_server)
        = sent scenario_server
          @ [(2, M_location (loc1\<lparr>l_latitude := PosInfinity, l_longitude := Finite 0,
                                    l_lastUpdated := Some 20\<rparr>))]"
proof -
  have "readyStateOf scenario_server 1 = OPEN
   \<and> sharingLocationId (conns scenario_server 1) = Some ''loc1''
   \<and> locationUpdateSchema (m_data infinite_update)
        = Some \<lparr>lu_latitude = PosInfinity, lu_longitude = Finite 0\<rparr>
   \<and> Map_get (locations (storage (on_message 1 20 (Envelope infinite_update) scenario_server)))
        ''loc1''
        = Some (loc1\<lparr>l_latitude := PosInfinity, l_longitude := Finite 0,
                      l_lastUpdated := Some 20\<rparr>)
   \<and> sent (on_message 1 20 (Envelope infinite_update) scenario_server)
        = sent scenario_server
          @ [(2, M_location (loc1\<lparr>l_latitude := PosInfinity, l_longitude := Finite 0,
                                    l_lastUpdated := Some 20\<rparr>))]"
    by (simp add: scenario_server_eq infinite_update_def handler_defs schema_defs storage_defs
          scenario_store_def loc1_def Let_def)
  with scenario_server_reachable show ?thesis by simp
qed

text \<open>
  Claim C8. A socket on which no \<^verbatim>\<open>share\<close> is in force (its \<^verbatim>\<open>sharingLocationId\<close> is
  null) that sends \<^verbatim>\<open>update\<close>, and a socket on which no \<^verbatim>\<open>shareVehicle\<close> is in force that
  sends \<^verbatim>\<open>updateVehicle\<close>, leave the whole server state as it was, whatever the payload:
  the store is not written, nothing is sent, and every socket keeps its ready state. That
  is the case of a socket that has just connected.
\<close>

theorem update_before_share_dropped:
  "(m_type m = ''update'' \<and> sharingLocationId (conns s w) = None \<longrightarrow>
      on_message w now (Envelope m) s = s)
   \<and>
   (m_type m = ''updateVehicle'' \<and> sharingVehicleId (conns s w) = None \<longrightarrow>
      on_message w now (Envelope m) s = s)
   \<and>
   (m_type m = ''update'' \<or> m_type m = ''updateVehicle'' \<longrightarrow>
      on_message w now (Envelope m) (on_connection w s) = on_connection w s)"
  by (auto simp add: on_message_def guard_def truthy_def on_connection_def new_conn_def)

text \<open>
  In the scenario socket 2 only views; it sends a well-formed \<^verbatim>\<open>update\<close> and a well-formed
  \<^verbatim>\<open>updateVehicle\<close>.
\<close>

theorem update_before_share_dropped_witness:
  "readyStateOf scenario_server 2 = OPEN
   \<and> sharingLocationId (conns scenario_server 2) = None
   \<and> sharingVehicleId (conns scenario_server 2) = None
   \<and> locationUpdateSchema
        (Some (JObject [(''latitude'', JNumber (Finite 41)), (''longitude'', JNumber (Finite 2))]))
        \<noteq> None
   \<and> on_message 2 20
        (Envelope ((envelope ''update'')
           \<lparr>m_data := Some (JObject [(''latitude'', JNumber (Finite 41)),
                                     (''longitude'', JNumber (Finite 2))])\<rparr>))
        scenario_server = scenario_server
   \<and> on_message 2 20
        (Envelope ((envelope ''updateVehicle'')
           \<lparr>m_data := Some (JObject [(''latitude'', JNumber (Finite 41)),
                                     (''longitude'', JNumber (Finite 2))])\<rparr>))
        scenario_server = scenario_server"
proof -
  let ?d = "Some (JObject [(''latitude'', JNumber (Finite 41)),
                           (''longitude'', JNumber (Finite 2))])"
  let ?m1 = "(envelope ''update'')\<lparr>m_data := ?d\<rparr>"
  let ?m2 = "(envelope ''updateVehicle'')\<lparr>m_data := ?d\<rparr>"
  have h: "readyStateOf scenario_server 2 = OPEN
           \<and> sharingLocationId (conns scenario_server 2) = None
           \<and> sharingVehicleId (conns scenario_server 2) = None"
    by (simp add: scenario_server_eq new_conn_def)
  have p: "locationUpdateSchema ?d \<noteq> None" by (simp add: schema_defs)
  have t1: "m_type ?m1 = ''update''" by (simp add: envelope_def)
  have t2: "m_type ?m2 = ''updateVehicle''" by (simp add: envelope_def)
  from update_before_share_dropped[of ?m1 scenario_server 2 20] t1 h
  have c1: "on_message 2 20 (Envelope ?m1) scenario_server = scenario_server" by blast
  from update_before_share_dropped[of ?m2 scenario_server 2 20] t2 h
  have c2: "on_message 2 20 (Envelope ?m2) scenario_server = scenario_server" by blast
  from h p c1 c2 show ?thesis by blast
qed

section \<open>Vehicle colours\<close>

text \<open>
  Claim C5. For a fleet that is in the store and not expired, a vehicle created without a
  colour gets the palette entry at index \<open>n mod 8\<close>, where \<open>n\<close> is the number of vehicles of
  that fleet in the store at the time of the call and 8 is the size of the palette: the
  first entry when the fleet has no vehicle, the second when it has one. The new vehicle is
  stored under its identifier, and under a fresh identifier the fleet then has \<open>n + 1\<close>
  vehicles, so the colours follow the order of creation.
\<close>

theorem createVehicle_palette:
  assumes "Map_get (fleets st) (iv_fleetId ins) = Some fleet"
    and "now \<le> f_expiresAt fleet"
    and "iv_color ins = None"
  shows "let n = length (filter (\<lambda>v. v_fleetId v = iv_fleetId ins) (Map_values (vehicles st)));
             vehicle = fst (createVehicle ident shareCode now ins st);
             st' = snd (createVehicle ident shareCode now ins st)
         in v_color vehicle = VEHICLE_COLORS ! (n mod 8)
            \<and> length VEHICLE_COLORS = 8
            \<and> (n = 0 \<longrightarrow> v_color vehicle = ''#ef4444'')
            \<and> (n = 1 \<longrightarrow> v_color vehicle = ''#3b82f6'')
            \<and> Map_get (vehicles st') ident = Some vehicle
            \<and> (ident \<notin> fst ` set (vehicles st) \<longrightarrow>
                  length (filter (\<lambda>v. v_fleetId v = iv_fleetId ins) (Map_values (vehicles st')))
                    = n + 1)"
proof -
  have g: "getVehiclesByFleet now (iv_fleetId ins) st
             = (filter (\<lambda>v. v_fleetId v = iv_fleetId ins) (Map_values (vehicles st)), st)"
    using assms(1,2) by (simp add: getVehiclesByFleet_def getFleet_live)
  have len: "length VEHICLE_COLORS = 8" by (simp add: VEHICLE_COLORS_def)
  have c0: "VEHICLE_COLORS ! 0 = ''#ef4444''" by (simp add: VEHICLE_COLORS_def)
  have c1: "VEHICLE_COLORS ! Suc 0 = ''#3b82f6''" by (simp add: VEHICLE_COLORS_def)
  show ?thesis
    using assms(3)
    by (auto simp add: createVehicle_def g len c0 c1 Let_def truthy_def Map_get_set
          Map_set_fresh Map_values_def)
qed

text \<open>
  The two vehicles of the scenario, created in turn in the fleet \<^verbatim>\<open>fl1\<close>: the first gets
  the first colour of the palette, the second the second.
\<close>

theorem createVehicle_palette_witness:
  "Map_get (fleets (scenario_store\<lparr>vehicles := []\<rparr>)) ''fl1'' = Some fl1
   \<and> 1 \<le> f_expiresAt fl1
   \<and> v_color (fst (createVehicle ''v1'' ''s1'' 1
                     \<lparr>iv_fleetId = ''fl1'', iv_name = ''Buggy 1'', iv_color = None\<rparr>
                     (scenario_store\<lparr>vehicles := []\<rparr>))) = VEHICLE_COLORS ! 0
   \<and> v_color (fst (createVehicle ''v1'' ''s1'' 1
                     \<lparr>iv_fleetId = ''fl1'', iv_name = ''Buggy 1'', iv_color = None\<rparr>
                     (scenario_store\<lparr>vehicles := []\<rparr>))) = ''#ef4444''
   \<and> v_color (fst (createVehicle ''v2'' ''s2'' 2
                     \<lparr>iv_fleetId = ''fl1'', iv_name = ''Buggy 2'', iv_color = None\<rparr>
                     (scenario_store\<lparr>vehicles := [(''v1'', buggy1)]\<rparr>))) = ''#3b82f6''"
proof -
  let ?i1 = "\<lparr>iv_fleetId = ''fl1'', iv_name = ''Buggy 1'', iv_color = None\<rparr>"
  let ?i2 = "\<lparr>iv_fleetId = ''fl1'', iv_name = ''Buggy 2'', iv_color = None\<rparr>"
  let ?st1 = "scenario_store\<lparr>vehicles := []\<rparr>"
  let ?st2 = "scenario_store\<lparr>vehicles := [(''v1'', buggy1)]\<rparr>"
  have f1: "Map_get (fleets ?st1) (iv_fleetId ?i1) = Some fl1"
    by (simp add: scenario_store_def Map_get_def)
  have f2: "Map_get (fleets ?st2) (iv_fleetId ?i2) = Some fl1"
    by (simp add: scenario_store_def Map_get_def)
  have e1: "1 \<le> f_expiresAt fl1" and e2: "2 \<le> f_expiresAt fl1" by (simp_all add: fl1_def)
  have n1: "length (filter (\<lambda>v. v_fleetId v = iv_fleetId ?i1) (Map_values (vehicles ?st1))) = 0"
    by (simp add: Map_values_def)
  have n2: "length (filter (\<lambda>v. v_fleetId v = iv_fleetId ?i2) (Map_values (vehicles ?st2))) = 1"
    by (simp add: Map_values_def buggy1_def)
  from createVehicle_palette[OF f1 e1, of "''v1''" "''s1''"] n1
  have c1: "v_color (fst (createVehicle ''v1'' ''s1'' 1 ?i1 ?st1)) = VEHICLE_COLORS ! 0
            \<and> v_color (fst (createVehicle ''v1'' ''s1'' 1 ?i1 ?st1)) = ''#ef4444''"
    by (simp add: Let_def VEHICLE_COLORS_def)
  from createVehicle_palette[OF f2 e2, of "''v2''" "''s2''"] n2
  have c2: "v_color (fst (createVehicle ''v2'' ''s2'' 2 ?i2 ?st2)) = ''#3b82f6''"
    by (simp add: Let_def VEHICLE_COLORS_def)
  from f1 have f1': "Map_get (fleets ?st1) ''fl1'' = Some fl1" by simp
  from f1' e1 c1 c2 show ?thesis by blast
qed

section \<open>The publisher registries\<close>

text \<open>
  Claim C6. In every state the server can reach, the registry of solo publishers and the
  registry of vehicle publishers each hold at most one entry per key. Registering a
  publisher for a key, held or not, leaves exactly one entry for that key, the socket that
  registered last.
\<close>

theorem single_publisher_per_key:
  assumes "reachable s"
  shows "distinct (map fst (sharerConnections s))
         \<and> distinct (map fst (vehicleSharerConnections s))
         \<and> (\<forall>w k. Map_get (sharerConnections (on_share w k s)) k = Some w
                 \<and> filter (\<lambda>e. fst e = k) (sharerConnections (on_share w k s)) = [(k, w)])
         \<and> (\<forall>w now k.
               Map_get (vehicleSharerConnections (on_shareVehicle w now k s)) k = Some w
               \<and> filter (\<lambda>e. fst e = k) (vehicleSharerConnections (on_shareVehicle w now k s))
                   = [(k, w)])"
proof -
  have inv: "distinct (map fst (sharerConnections s))
             \<and> distinct (map fst (vehicleSharerConnections s))"
    using assms
  proof (induction rule: reachable.induct)
    case r_init
    show ?case by (simp add: server_init_def)
  next
    case (r_connection s w)
    then show ?case by (simp add: on_connection_def)
  next
    case (r_message s w now fr)
    then show ?case by (simp add: distinct_publishers_on_message)
  next
    case (r_close s w now)
    then show ?case by (simp add: distinct_publishers_transport_close)
  next
    case (r_request s now req)
    then show ?case by (simp add: on_request_def)
  qed
  have a: "Map_get (sharerConnections (on_share w k s)) k = Some w
           \<and> filter (\<lambda>e. fst e = k) (sharerConnections (on_share w k s)) = [(k, w)]" for w k
  proof -
    have g: "Map_get (sharerConnections (on_share w k s)) k = Some w"
      by (simp add: publishers_on_share Map_get_set)
    have "distinct (map fst (sharerConnections (on_share w k s)))"
      using inv by (simp add: publishers_on_share distinct_Map_set)
    with g show ?thesis by (simp add: distinct_one_entry)
  qed
  have b: "Map_get (vehicleSharerConnections (on_shareVehicle w now k s)) k = Some w
           \<and> filter (\<lambda>e. fst e = k) (vehicleSharerConnections (on_shareVehicle w now k s))
               = [(k, w)]" for w now k
  proof -
    have g: "Map_get (vehicleSharerConnections (on_shareVehicle w now k s)) k = Some w"
      by (simp add: publishers_on_shareVehicle Map_get_set)
    have "distinct (map fst (vehicleSharerConnections (on_shareVehicle w now k s)))"
      using inv by (simp add: publishers_on_shareVehicle distinct_Map_set)
    with g show ?thesis by (simp add: distinct_one_entry)
  qed
  from inv a b show ?thesis by blast
qed

text \<open>
  In the scenario socket 1 holds \<^verbatim>\<open>loc1\<close> and socket 3 holds \<^verbatim>\<open>v1\<close>; sockets 5 and 6
  register for the same keys and take them over.
\<close>

theorem single_publisher_per_key_witness:
  "reachable scenario_server
   \<and> Map_get (sharerConnections scenario_server) ''loc1'' = Some 1
   \<and> Map_get (vehicleSharerConnections scenario_server) ''v1'' = Some 3
   \<and> distinct (map fst (sharerConnections scenario_server))
   \<and> distinct (map fst (vehicleSharerConnections scenario_server))
   \<and> sharerConnections (on_share 5 ''loc1'' scenario_server) = [(''loc1'', 5)]
   \<and> filter (\<lambda>e. fst e = ''loc1'') (sharerConnections (on_share 5 ''loc1'' scenario_server))
       = [(''loc1'', 5)]
   \<and> filter (\<lambda>e. fst e = ''v1'')
        (vehicleSharerConnections (on_shareVehicle 6 20 ''v1'' scenario_server))
       = [(''v1'', 6)]"
proof -
  have e: "Map_get (sharerConnections scenario_server) ''loc1'' = Some 1
           \<and> Map_get (vehicleSharerConnections scenario_server) ''v1'' = Some 3
           \<and> sharerConnections (on_share 5 ''loc1'' scenario_server) = [(''loc1'', 5)]"
    by (simp add: scenario_server_eq Map_get_def on_share_def Map_set_def)
  from single_publisher_per_key[OF scenario_server_reachable]
  have "distinct (map fst (sharerConnections scenario_server))
   \<and> distinct (map fst (vehicleSharerConnections scenario_server))
   \<and> filter (\<lambda>e. fst e = ''loc1'') (sharerConnections (on_share 5 ''loc1'' scenario_server))
       = [(''loc1'', 5)]
   \<and> filter (\<lambda>e. fst e = ''v1'')
        (vehicleSharerConnections (on_shareVehicle 6 20 ''v1'' scenario_server))
       = [(''v1'', 6)]"
    by blast
  with e scenario_server_reachable show ?thesis by blast
qed

section \<open>Updating and creating a location\<close>

text \<open>
  Claim C7. \<^verbatim>\<open>updateLocation\<close> on an absent key returns not-found and leaves the store as
  it is; on a record whose expiry timestamp is before the time of the call it returns
  not-found and the store differs only by the purge of that record; on a record that is
  present and not expired it returns the record with latitude and longitude taken from the
  update and the last-update timestamp set to the time of the call, with id, name,
  creation timestamp, expiry timestamp and live flag as before, stores it under the key,
  and leaves every other location, the fleets and the vehicles as they are.
\<close>

theorem updateLocation_frame:
  "(Map_get (locations st) ident = None \<longrightarrow> updateLocation now ident upd st = (None, st))
   \<and>
   (Map_get (locations st) ident = Some location \<and> l_expiresAt location = Some e \<and> e < now \<longrightarrow>
      updateLocation now ident upd st
        = (None, st\<lparr>locations := Map_delete ident (locations st)\<rparr>))
   \<and>
   (Map_get (locations st) ident = Some location
      \<and> (\<forall>e. l_expiresAt location = Some e \<longrightarrow> now \<le> e) \<longrightarrow>
      (\<exists>updated st'.
         updateLocation now ident upd st = (Some updated, st')
         \<and> l_latitude updated = lu_latitude upd
         \<and> l_longitude updated = lu_longitude upd
         \<and> l_lastUpdated updated = Some now
         \<and> l_id updated = l_id location
         \<and> l_name updated = l_name location
         \<and> l_createdAt updated = l_createdAt location
         \<and> l_expiresAt updated = l_expiresAt location
         \<and> l_isLive updated = l_isLive location
         \<and> Map_get (locations st') ident = Some updated
         \<and> (\<forall>k. k \<noteq> ident \<longrightarrow> Map_get (locations st') k = Map_get (locations st) k)
         \<and> fleets st' = fleets st
         \<and> vehicles st' = vehicles st))"
proof (intro conjI impI)
  assume "Map_get (locations st) ident = None"
  then show "updateLocation now ident upd st = (None, st)"
    by (simp add: updateLocation_def getLocation_absent)
next
  assume "Map_get (locations st) ident = Some location \<and> l_expiresAt location = Some e \<and> e < now"
  then show "updateLocation now ident upd st
        = (None, st\<lparr>locations := Map_delete ident (locations st)\<rparr>)"
    by (simp add: updateLocation_def getLocation_expired)
next
  assume h: "Map_get (locations st) ident = Some location
      \<and> (\<forall>e. l_expiresAt location = Some e \<longrightarrow> now \<le> e)"
  then have g: "getLocation now ident st = (Some location, st)"
    by (simp add: getLocation_live)
  show "\<exists>updated st'.
         updateLocation now ident upd st = (Some updated, st')
         \<and> l_latitude updated = lu_latitude upd
         \<and> l_longitude updated = lu_longitude upd
         \<and> l_lastUpdated updated = Some now
         \<and> l_id updated = l_id location
         \<and> l_name updated = l_name location
         \<and> l_createdAt updated = l_createdAt location
         \<and> l_expiresAt updated = l_expiresAt location
         \<and> l_isLive updated = l_isLive location
         \<and> Map_get (locations st') ident = Some updated
         \<and> (\<forall>k. k \<noteq> ident \<longrightarrow> Map_get (locations st') k = Map_get (locations st) k)
         \<and> fleets st' = fleets st
         \<and> vehicles st' = vehicles st"
    by (simp add: updateLocation_def g Map_get_set Let_def)
qed

text \<open>
  On the store of the scenario: a key that is not there; \<^verbatim>\<open>loc1\<close> one millisecond after
  its expiry; \<^verbatim>\<open>loc1\<close> at time 20, moved to (41, -74).
\<close>

theorem updateLocation_frame_witness:
  "Map_get (locations scenario_store) ''nope'' = None
   \<and> updateLocation 20 ''nope'' \<lparr>lu_latitude = Finite 41, lu_longitude = Finite (- 74)\<rparr>
        scenario_store = (None, scenario_store)
   \<and> Map_get (locations scenario_store) ''loc1'' = Some loc1
   \<and> l_expiresAt loc1 = Some 900000
   \<and> updateLocation 900001 ''loc1'' \<lparr>lu_latitude = Finite 41, lu_longitude = Finite (- 74)\<rparr>
        scenario_store = (None, scenario_store\<lparr>locations := []\<rparr>)
   \<and> updateLocation 20 ''loc1'' \<lparr>lu_latitude = Finite 41, lu_longitude = Finite (- 74)\<rparr>
        scenario_store
       = (Some (loc1\<lparr>l_latitude := Finite 41, l_longitude := Finite (- 74),
                      l_lastUpdated := Some 20\<rparr>),
          scenario_store\<lparr>locations :=
            [(''loc1'', loc1\<lparr>l_latitude := Finite 41, l_longitude := Finite (- 74),
                              l_lastUpdated := Some 20\<rparr>)]\<rparr>)"
proof -
  let ?u = "\<lparr>lu_latitude = Finite 41, lu_longitude = Finite (- 74)\<rparr>"
  have h0: "Map_get (locations scenario_store) ''nope'' = None"
    by (simp add: scenario_store_def Map_get_def)
  have h1: "Map_get (locations scenario_store) ''loc1'' = Some loc1
            \<and> l_expiresAt loc1 = Some 900000 \<and> (900000::int) < 900001"
    by (simp add: scenario_store_def Map_get_def loc1_def)
  have h2: "\<forall>e. l_expiresAt loc1 = Some e \<longrightarrow> 20 \<le> e" by (simp add: loc1_def)
  from updateLocation_frame[of scenario_store "''nope''" 20 ?u loc1 900000] h0
  have c0: "updateLocation 20 ''nope'' ?u scenario_store = (None, scenario_store)" by blast
  from updateLocation_frame[of scenario_store "''loc1''" 900001 ?u loc1 900000] h1
  have "updateLocation 900001 ''loc1'' ?u scenario_store
          = (None, scenario_store\<lparr>locations := Map_delete ''loc1'' (locations scenario_store)\<rparr>)"
    by blast
  then have c1: "updateLocation 900001 ''loc1'' ?u scenario_store
                   = (None, scenario_store\<lparr>locations := []\<rparr>)"
    by (simp add: scenario_store_def Map_delete_def)
  from updateLocation_frame[of scenario_store "''loc1''" 20 ?u loc1 900000] h1 h2
  have "fst (updateLocation 20 ''loc1'' ?u scenario_store) \<noteq> None" by auto
  then have c2: "updateLocation 20 ''loc1'' ?u scenario_store
       = (Some (loc1\<lparr>l_latitude := Finite 41, l_longitude := Finite (- 74),
                      l_lastUpdated := Some 20\<rparr>),
          scenario_store\<lparr>locations :=
            [(''loc1'', loc1\<lparr>l_latitude := Finite 41, l_longitude := Finite (- 74),
                              l_lastUpdated := Some 20\<rparr>)]\<rparr>)"
    by (simp add: updateLocation_def getLocation_def scenario_store_def Map_get_def Map_set_def
          loc1_def Let_def)
  from h0 h1 c0 c1 c2 show ?thesis by simp
qed

text \<open>What the route hands to \<^verbatim>\<open>createLocation\<close> has passed the range check.\<close>

lemma insertLocationSchema_expiry_parsed:
  "insertLocationSchema v = Some ins \<Longrightarrow> i_expiresInMinutes ins = Some m \<Longrightarrow> 1 \<le> m \<and> m \<le> 1440"
  by (auto simp add: insertLocationSchema_def z_expiresInMinutes_def
        split: option.splits json.splits number.splits if_splits)

lemma createLocation_Inr:
  assumes "(case i_expiresInMinutes ins of None \<Rightarrow> 1440 | Some m \<Rightarrow> if m = 0 then 1440 else m) = em"
    and "js_add (Finite (real_of_int now)) (js_mul (js_mul (Finite em) (Finite 60)) (Finite 1000))
           = Finite s"
    and "0 \<le> s" and "s \<le> 8640000000000000"
  shows "createLocation ident now ins st =
           Inr (\<lparr>l_id = ident, l_latitude = i_latitude ins, l_longitude = i_longitude ins,
                 l_name = i_name ins, l_createdAt = now, l_expiresAt = Some \<lfloor>s\<rfloor>,
                 l_isLive = Some (case i_isLive ins of None \<Rightarrow> False | Some b \<Rightarrow> b),
                 l_lastUpdated = Some now\<rparr>,
                st\<lparr>locations :=
                  Map_set ident
                    \<lparr>l_id = ident, l_latitude = i_latitude ins, l_longitude = i_longitude ins,
                     l_name = i_name ins, l_createdAt = now, l_expiresAt = Some \<lfloor>s\<rfloor>,
                     l_isLive = Some (case i_isLive ins of None \<Rightarrow> False | Some b \<Rightarrow> b),
                     l_lastUpdated = Some now\<rparr>
                    (locations st)\<rparr>)"
  using assms
  by (simp add: createLocation_def new_Date_number_def new_Date_def toISOString_def Let_def)

lemma createLocation_fields:
  assumes "createLocation ident now ins st = Inr (location, st')"
  shows "l_expiresAt location \<noteq> None
         \<and> (i_isLive ins = None \<longrightarrow> l_isLive location = Some False)
         \<and> (\<forall>b. i_isLive ins = Some b \<longrightarrow> l_isLive location = Some b)
         \<and> l_createdAt location = now
         \<and> l_lastUpdated location = Some (l_createdAt location)
         \<and> Map_get (locations st') ident = Some location"
  using assms
  by (auto simp add: createLocation_def toISOString_def Let_def Map_get_set
        split: option.splits sum.splits)

lemma createLocation_whole:
  assumes em: "(case i_expiresInMinutes ins of None \<Rightarrow> 1440 | Some m \<Rightarrow> if m = 0 then 1440 else m)
                 = real_of_int k"
    and lo: "0 \<le> now + k * 60000" and hi: "now + k * 60000 \<le> 8640000000000000"
    and now: "0 \<le> now" "now \<le> 8000000000000000"
  shows "\<exists>location st'. createLocation ident now ins st = Inr (location, st')
           \<and> l_expiresAt location = Some (now + k * 60000)"
proof -
  have "\<bar>k * 60000\<bar> \<le> 8640000000000000" using lo hi now by linarith
  then have a: "\<bar>k * 60000\<bar> < 2 ^ 53" by simp
  have "\<bar>now + k * 60000\<bar> \<le> 8640000000000000" using lo hi by linarith
  then have b: "\<bar>now + k * 60000\<bar> < 2 ^ 53" by simp
  have s0: "0 \<le> real_of_int (now + k * 60000)" using lo by (simp only: of_int_0_le_iff)
  have "real_of_int (now + k * 60000) \<le> real_of_int 8640000000000000"
    using hi by (simp only: of_int_le_iff)
  then have s1: "real_of_int (now + k * 60000) \<le> 8640000000000000" by simp
  from createLocation_Inr[OF em expiry_whole[OF a b] s0 s1, of ident st]
  show ?thesis by (simp only: floor_of_int) (simp del: of_int_add of_int_mult)
qed

text \<open>
  Claim C10, as the code has it. For a clock between 0 and 8000000000000000 milliseconds
  (the range of dates ends at 8640000000000000), every record
  \<^verbatim>\<open>createLocation\<close> returns has an expiry timestamp, a live flag that is false when omitted
  and the given one otherwise, and a last-update timestamp equal to the creation timestamp,
  and is stored under its identifier. When \<^verbatim>\<open>expiresInMinutes\<close> is omitted, or is 0, the
  call returns and the expiry is the creation time plus 1440 minutes. When it is a whole
  number of minutes other than 0 (and the sum is within the range of dates), the call
  returns and the expiry is exactly the creation time plus that many minutes. When it is
  any number the schema lets through, whole or fractional between 1 and 1440, the call
  returns and the expiry is less than two milliseconds away from the creation time plus
  that many minutes: the sum is computed in double precision and truncated.
\<close>

theorem createLocation_defaults:
  assumes "0 \<le> now" and "now \<le> 8000000000000000"
  shows "(i_expiresInMinutes ins = None \<or> i_expiresInMinutes ins = Some 0 \<longrightarrow>
            (\<exists>location st'. createLocation ident now ins st = Inr (location, st')
               \<and> l_expiresAt location = Some (now + 1440 * 60000)))
         \<and> (\<forall>k. i_expiresInMinutes ins = Some (real_of_int k) \<and> k \<noteq> 0
                 \<and> 0 \<le> now + k * 60000 \<and> now + k * 60000 \<le> 8640000000000000 \<longrightarrow>
               (\<exists>location st'. createLocation ident now ins st = Inr (location, st')
                  \<and> l_expiresAt location = Some (now + k * 60000)))
         \<and> (\<forall>m. i_expiresInMinutes ins = Some m \<and> 1 \<le> m \<and> m \<le> 1440 \<longrightarrow>
               (\<exists>location st' e. createLocation ident now ins st = Inr (location, st')
                  \<and> l_expiresAt location = Some e
                  \<and> \<bar>real_of_int e - (real_of_int now + m * 60000)\<bar> < 2))
         \<and> (\<forall>location st'. createLocation ident now ins st = Inr (location, st') \<longrightarrow>
               l_expiresAt location \<noteq> None
               \<and> (i_isLive ins = None \<longrightarrow> l_isLive location = Some False)
               \<and> (\<forall>b. i_isLive ins = Some b \<longrightarrow> l_isLive location = Some b)
               \<and> l_createdAt location = now
               \<and> l_lastUpdated location = Some (l_createdAt location)
               \<and> Map_get (locations st') ident = Some location)"
proof (intro conjI allI impI)
  assume h: "i_expiresInMinutes ins = None \<or> i_expiresInMinutes ins = Some 0"
  then have em: "(case i_expiresInMinutes ins of None \<Rightarrow> 1440
                   | Some m \<Rightarrow> if m = 0 then 1440 else m) = real_of_int 1440"
    by auto
  have "0 \<le> now + 1440 * 60000" "now + 1440 * 60000 \<le> 8640000000000000"
    using assms by simp_all
  from createLocation_whole[OF em this assms]
  show "\<exists>location st'. createLocation ident now ins st = Inr (location, st')
               \<and> l_expiresAt location = Some (now + 1440 * 60000)" .
next
  fix k
  assume h: "i_expiresInMinutes ins = Some (real_of_int k) \<and> k \<noteq> 0
                 \<and> 0 \<le> now + k * 60000 \<and> now + k * 60000 \<le> 8640000000000000"
  then have em: "(case i_expiresInMinutes ins of None \<Rightarrow> 1440
                   | Some m \<Rightarrow> if m = 0 then 1440 else m) = real_of_int k"
    by simp
  from h have lo: "0 \<le> now + k * 60000" and hi: "now + k * 60000 \<le> 8640000000000000"
    by simp_all
  from createLocation_whole[OF em lo hi assms]
  show "\<exists>location st'. createLocation ident now ins st = Inr (location, st')
                  \<and> l_expiresAt location = Some (now + k * 60000)" .
next
  fix m
  assume h: "i_expiresInMinutes ins = Some m \<and> 1 \<le> m \<and> m \<le> 1440"
  then have m: "1 \<le> m" "m \<le> 1440" by simp_all
  from h have em: "(case i_expiresInMinutes ins of None \<Rightarrow> 1440
                     | Some m \<Rightarrow> if m = 0 then 1440 else m) = m"
    by auto
  from expiry_fractional[OF m assms] obtain s
    where s: "js_add (Finite (real_of_int now)) (js_mul (js_mul (Finite m) (Finite 60)) (Finite 1000))
               = Finite s"
      and s0: "0 \<le> s" and s1: "s \<le> 8640000000000000"
      and err: "\<bar>s - (real_of_int now + m * 60000)\<bar> < 1" by blast
  have "\<bar>real_of_int \<lfloor>s\<rfloor> - (real_of_int now + m * 60000)\<bar> < 2" using err by linarith
  with createLocation_Inr[OF em s s0 s1, of ident st]
  show "\<exists>location st' e. createLocation ident now ins st = Inr (location, st')
                  \<and> l_expiresAt location = Some e
                  \<and> \<bar>real_of_int e - (real_of_int now + m * 60000)\<bar> < 2"
    by simp
next
  fix location st'
  assume r: "createLocation ident now ins st = Inr (location, st')"
  from createLocation_fields[OF r]
  show "l_expiresAt location \<noteq> None"
    and "i_isLive ins = None \<Longrightarrow> l_isLive location = Some False"
    and "l_createdAt location = now"
    and "l_lastUpdated location = Some (l_createdAt location)"
    and "Map_get (locations st') ident = Some location"
    by simp_all
  fix b assume "i_isLive ins = Some b"
  with createLocation_fields[OF r] show "l_isLive location = Some b" by simp
qed

text \<open>
  At clock 0 on the empty store: the location of the scenario, asked for 15 minutes with the
  live flag set; a request with neither expiry nor live flag; a request for the fractional
  number of minutes nearest to 1.07945.
\<close>

theorem createLocation_defaults_witness:
  "(0::int) \<le> 0 \<and> (0::int) \<le> 8000000000000000
   \<and> createLocation ''loc1'' 0
        \<lparr>i_latitude = Finite 40, i_longitude = Finite (- 73), i_name = None,
         i_isLive = Some True, i_expiresInMinutes = Some 15\<rparr> MemStorage
       = Inr (loc1, MemStorage\<lparr>locations := [(''loc1'', loc1)]\<rparr>)
   \<and> l_expiresAt loc1 = Some (0 + 15 * 60000)
   \<and> l_isLive loc1 = Some True
   \<and> l_lastUpdated loc1 = Some (l_createdAt loc1)
   \<and> (\<exists>location st'.
         createLocation ''loc2'' 0
           \<lparr>i_latitude = Finite 40, i_longitude = Finite (- 73), i_name = None,
            i_isLive = None, i_expiresInMinutes = None\<rparr> MemStorage = Inr (location, st')
         \<and> l_expiresAt location = Some (0 + 1440 * 60000)
         \<and> l_isLive location = Some False)
   \<and> 1 \<le> fractional_minutes \<and> fractional_minutes \<le> 1440
   \<and> (\<exists>location st' e.
         createLocation ''loc3'' 0 fractional_insert MemStorage = Inr (location, st')
         \<and> l_expiresAt location = Some e
         \<and> \<bar>real_of_int e - (real_of_int 0 + fractional_minutes * 60000)\<bar> < 2)"
proof -
  let ?i1 = "\<lparr>i_latitude = Finite 40, i_longitude = Finite (- 73), i_name = None,
              i_isLive = Some True, i_expiresInMinutes = Some 15\<rparr>"
  let ?i2 = "\<lparr>i_latitude = Finite 40, i_longitude = Finite (- 73), i_name = None,
              i_isLive = None, i_expiresInMinutes = None\<rparr>"
  have n0: "(0::int) \<le> 0" and n1: "(0::int) \<le> 8000000000000000" by simp_all
  have r1: "createLocation ''loc1'' 0 ?i1 MemStorage
              = Inr (loc1, MemStorage\<lparr>locations := [(''loc1'', loc1)]\<rparr>)"
    by (simp add: createLocation_def new_Date_number_def new_Date_def fl_numeral toISOString_def
          MemStorage_def Map_set_def loc1_def Let_def)
  have k: "i_expiresInMinutes ?i1 = Some (real_of_int 15) \<and> (15::int) \<noteq> 0
           \<and> (0::int) \<le> 0 + 15 * 60000 \<and> (0::int) + 15 * 60000 \<le> 8640000000000000"
    by simp
  from createLocation_defaults[OF n0 n1, of ?i1 "''loc1''" MemStorage] k r1
  have c1: "l_expiresAt loc1 = Some (0 + 15 * 60000)
            \<and> l_isLive loc1 = Some True
            \<and> l_lastUpdated loc1 = Some (l_createdAt loc1)"
    by (auto simp del: of_int_numeral)
  from createLocation_defaults[OF n0 n1, of ?i2 "''loc2''" MemStorage]
  have c2: "\<exists>location st'.
         createLocation ''loc2'' 0 ?i2 MemStorage = Inr (location, st')
         \<and> l_expiresAt location = Some (0 + 1440 * 60000)
         \<and> l_isLive location = Some False"
    by fastforce
  have m: "1 \<le> fractional_minutes \<and> fractional_minutes \<le> 1440"
    by (simp add: fractional_minutes_def)
  have f: "i_expiresInMinutes fractional_insert = Some fractional_minutes"
    by (simp add: fractional_insert_def)
  from createLocation_defaults[OF n0 n1, of fractional_insert "''loc3''" MemStorage] f m
  have c3: "\<exists>location st' e.
         createLocation ''loc3'' 0 fractional_insert MemStorage = Inr (location, st')
         \<and> l_expiresAt location = Some e
         \<and> \<bar>real_of_int e - (real_of_int 0 + fractional_minutes * 60000)\<bar> < 2"
    by blast
  from n0 n1 r1 c1 c2 m c3 show ?thesis by blast
qed

text \<open>
  Claim C10 as stated fails on two inputs. The request body \<^verbatim>\<open>fractional_body\<close> passes the
  schema with 1.07945 minutes; at clock 0 that many minutes are 64767 milliseconds and a
  little more, and the record is stored with the expiry 64766, since the product
  \<^verbatim>\<open>1.07945 * 60\<close> is rounded below 64.767. And a call that supplies 0 minutes gets the
  default of 1440 minutes, not the creation time plus 0 minutes.
\<close>

theorem createLocation_expiry_counterexample:
  "insertLocationSchema fractional_body = Some fractional_insert
   \<and> i_expiresInMinutes fractional_insert = Some fractional_minutes
   \<and> \<lfloor>real_of_int 0 + fractional_minutes * 60000\<rfloor> = 64767
   \<and> createLocation ''loc3'' 0 fractional_insert MemStorage
       = Inr (loc3, MemStorage\<lparr>locations := [(''loc3'', loc3)]\<rparr>)
   \<and> l_expiresAt loc3 = Some 64766
   \<and> createLocation ''loc4'' 0 (fractional_insert\<lparr>i_expiresInMinutes := Some 0\<rparr>) MemStorage
       = Inr (loc4, MemStorage\<lparr>locations := [(''loc4'', loc4)]\<rparr>)
   \<and> l_expiresAt loc4 = Some (0 + 1440 * 60000)"
proof -
  have a: "js_mul (Finite fractional_minutes) (Finite 60)
             = Finite (4557572454154764 / 70368744177664)"
    using fl_eval[of 6 "fractional_minutes * 60" 4557572454154764]
    by (simp add: fractional_minutes_def rne_def Let_def)
  have b: "js_mul (Finite (4557572454154764 / 70368744177664)) (Finite 1000)
             = Finite (8901508699521023 / 137438953472)"
    using fl_eval[of 15 "4557572454154764 / 70368744177664 * 1000" 8901508699521023]
    by (simp add: rne_def Let_def)
  have c: "js_add (Finite (real_of_int 0)) (Finite (8901508699521023 / 137438953472))
             = Finite (8901508699521023 / 137438953472)"
    using fl_eval[of 15 "8901508699521023 / 137438953472" 8901508699521023]
    by (simp add: rne_def Let_def)
  have em: "(case i_expiresInMinutes fractional_insert of None \<Rightarrow> 1440
              | Some m \<Rightarrow> if m = 0 then 1440 else m) = fractional_minutes"
    by (simp add: fractional_insert_def fractional_minutes_def)
  have s: "js_add (Finite (real_of_int 0))
             (js_mul (js_mul (Finite fractional_minutes) (Finite 60)) (Finite 1000))
           = Finite (8901508699521023 / 137438953472)"
    by (simp only: a b c)
  have fl64766: "\<lfloor>8901508699521023 / 137438953472 :: real\<rfloor> = 64766" by simp
  from createLocation_Inr[OF em s, of "''loc3''" MemStorage]
  have r3: "createLocation ''loc3'' 0 fractional_insert MemStorage
              = Inr (loc3, MemStorage\<lparr>locations := [(''loc3'', loc3)]\<rparr>)"
    by (simp add: fl64766 loc3_def fractional_insert_def MemStorage_def Map_set_def)
  have r4: "createLocation ''loc4'' 0 (fractional_insert\<lparr>i_expiresInMinutes := Some 0\<rparr>) MemStorage
              = Inr (loc4, MemStorage\<lparr>locations := [(''loc4'', loc4)]\<rparr>)"
    by (simp add: createLocation_def new_Date_number_def new_Date_def fl_numeral toISOString_def
          MemStorage_def Map_set_def loc4_def fractional_insert_def Let_def)
  have p: "insertLocationSchema fractional_body = Some fractional_insert"
    by (simp add: fractional_body_def fractional_insert_def fractional_minutes_def schema_defs)
  have f: "i_expiresInMinutes fractional_insert = Some fractional_minutes"
    by (simp add: fractional_insert_def)
  have x: "\<lfloor>real_of_int 0 + fractional_minutes * 60000\<rfloor> = 64767"
    by (simp add: fractional_minutes_def)
  have e3: "l_expiresAt loc3 = Some 64766" by (simp add: loc3_def)
  have e4: "l_expiresAt loc4 = Some (0 + 1440 * 60000)" by (simp add: loc4_def)
  from p f x r3 e3 r4 e4 show ?thesis by blast
qed

section \<open>The public view of a fleet\<close>

text \<open>
  Claim C9. The response of \<^verbatim>\<open>GET /api/fleets/:id\<close> is the 404 error object when the
  fleet is absent or expired, and otherwise the object with exactly the properties id,
  name, createdAt and expiresAt of the stored fleet: it has no \<^verbatim>\<open>adminCode\<close> property, it
  agrees with the stored fleet on every other property, and it is the same whatever the
  admin code of the fleet is.
\<close>

theorem public_fleet_view:
  "fst (get_api_fleets_id now ident st) =
     (case fst (getFleet now ident st) of
        None \<Rightarrow> json_error 404 ''Fleet not found or expired''
      | Some fleet \<Rightarrow>
          json_ok 200 (JObject [(''id'', JString (f_id fleet)),
                                (''name'', JString (f_name fleet)),
                                (''createdAt'', JIso (f_createdAt fleet)),
                                (''expiresAt'', JIso (f_expiresAt fleet))]))
   \<and> (\<forall>fleet. fst (getFleet now ident st) = Some fleet \<longrightarrow>
         (\<exists>publicFleet.
            body (fst (get_api_fleets_id now ident st)) = Some (JObject publicFleet)
            \<and> ''adminCode'' \<notin> fst ` set publicFleet
            \<and> (\<forall>k. k \<noteq> ''adminCode'' \<longrightarrow>
                  map_of publicFleet k = map_of (Fleet_object fleet) k)
            \<and> (\<forall>secret. rest_without ''adminCode'' (Fleet_object (fleet\<lparr>f_adminCode := secret\<rparr>))
                  = publicFleet)))"
proof (cases "getFleet now ident st")
  case (Pair r st1)
  show ?thesis
  proof (cases r)
    case None
    with Pair show ?thesis by (simp add: get_api_fleets_id_def)
  next
    case (Some fleet)
    have "\<And>k. k \<noteq> ''adminCode'' \<Longrightarrow>
        map_of (rest_without ''adminCode'' (Fleet_object fleet)) k = map_of (Fleet_object fleet) k"
      by (simp add: rest_without_def Fleet_object_def)
    with Pair Some show ?thesis
      by (simp add: get_api_fleets_id_def json_ok_def rest_without_def Fleet_object_def)
  qed
qed

text \<open>The fleet of the scenario, whose admin code is \<^verbatim>\<open>adm\<close>, read at time 20.\<close>

theorem public_fleet_view_witness:
  "fst (getFleet 20 ''fl1'' scenario_store) = Some fl1
   \<and> f_adminCode fl1 = ''adm''
   \<and> fst (get_api_fleets_id 20 ''fl1'' scenario_store)
       = json_ok 200 (JObject [(''id'', JString ''fl1''),
                               (''name'', JString ''Resort Buggies''),
                               (''createdAt'', JIso 0),
                               (''expiresAt'', JIso 86400000)])"
proof -
  have g: "fst (getFleet 20 ''fl1'' scenario_store) = Some fl1"
    by (simp add: getFleet_def scenario_store_def Map_get_def fl1_def)
  from public_fleet_view[of 20 "''fl1''" scenario_store] g
  have "fst (get_api_fleets_id 20 ''fl1'' scenario_store)
          = json_ok 200 (JObject [(''id'', JString (f_id fl1)),
                                  (''name'', JString (f_name fl1)),
                                  (''createdAt'', JIso (f_createdAt fl1)),
                                  (''expiresAt'', JIso (f_expiresAt fl1))])"
    by simp
  with g show ?thesis by (simp add: fl1_def)
qed

end
